theory Spec2Isabelle
  imports Main
begin

section \<open>Errors\<close>

text \<open>
  Every \<^verbatim>\<open>throw\<close> of the modelled code and every run-time \<^verbatim>\<open>TypeError\<close> the
  modelled paths can raise is a value of this type; a function that can throw returns
  \<open>error + 'a\<close> with \<open>Inl\<close> for the error.
\<close>

datatype error =
    TypeError
  | StateNotFound string
  | WildcardEvent
  | UnknownEvent string string
  | ChildStateNotFound string string
  | StateNodeNotFound string
  | GuardError string
  | OutOfFuel

section \<open>The flat finite-state machine of packages/xstate-fsm/src/index.ts\<close>

subsection \<open>Configuration data\<close>

text \<open>
  A configuration property of type \<^verbatim>\<open>SingleOrArray<T> | undefined\<close>. An array may
  hold \<^verbatim>\<open>undefined\<close> elements (the transition loop tests for them).
\<close>

datatype 'a single_or_array = Undefined | Single 'a | Array "'a option list"

text \<open>\<^verbatim>\<open>toArray(item)\<close>: \<^verbatim>\<open>item === undefined ? [] : [].concat(item)\<close>.\<close>

fun toArray :: "'a single_or_array \<Rightarrow> 'a option list" where
  "toArray Undefined = []"
| "toArray (Single x) = [Some x]"
| "toArray (Array xs) = xs"

text \<open>
  One argument of \<^verbatim>\<open>[].concat(a, b, c)\<close>: an array is spliced, anything else
  (also \<^verbatim>\<open>undefined\<close>) becomes one element.
\<close>

fun concatItem :: "'a single_or_array \<Rightarrow> 'a option list" where
  "concatItem Undefined = [None]"
| "concatItem (Single x) = [Some x]"
| "concatItem (Array xs) = xs"

text \<open>
  An event object is \<^verbatim>\<open>{ type, ...payload }\<close>; a context is a plain object, a finite
  map from property names to values (own properties only).
\<close>

record 'p event_object =
  etype :: string
  payload :: "(string \<times> 'p) list"

datatype 'p event_arg = EventName string | EventObject "'p event_object"

fun toEventObject :: "'p event_arg \<Rightarrow> 'p event_object" where
  "toEventObject (EventName s) = \<lparr>etype = s, payload = []\<rparr>"
| "toEventObject (EventObject e) = e"

type_synonym 'v fsm_context = "string \<rightharpoonup> 'v"

datatype ('v, 'p) property_assignment =
    PropertyValue 'v
  | PropertyFunction "'v fsm_context \<Rightarrow> 'p event_object \<Rightarrow> 'v"

datatype ('v, 'p) assignment =
    Assigner "'v fsm_context \<Rightarrow> 'p event_object \<Rightarrow> 'v fsm_context"
  | PropertyAssigner "(string \<times> ('v, 'p) property_assignment) list"

record ('v, 'p, 'x) fsm_action_object =
  atype :: string
  exec :: "'x option"
  assignment :: "('v, 'p) assignment option"

text \<open>
  An action as written in a configuration: a name, a function (with its \<^verbatim>\<open>name\<close>) or
  an action object.
\<close>

datatype ('v, 'p, 'x) fsm_action =
    NamedAction string
  | FunctionAction string 'x
  | ObjectAction "('v, 'p, 'x) fsm_action_object"

definition ASSIGN_ACTION :: string where
  "ASSIGN_ACTION = ''xstate.assign''"

definition assign :: "('v, 'p) assignment \<Rightarrow> ('v, 'p, 'x) fsm_action_object" where
  "assign a = \<lparr>atype = ASSIGN_ACTION, exec = None, assignment = Some a\<rparr>"

text \<open>JavaScript truthiness of a configured action: only the empty string is falsy.\<close>

fun truthy :: "('v, 'p, 'x) fsm_action \<Rightarrow> bool" where
  "truthy (NamedAction s) = (s \<noteq> [])"
| "truthy (FunctionAction n f) = True"
| "truthy (ObjectAction obj) = True"

text \<open>\<^verbatim>\<open>.filter((a) => a)\<close> on a list that may hold \<^verbatim>\<open>undefined\<close>.\<close>

fun filterTruthy :: "('v, 'p, 'x) fsm_action option list \<Rightarrow> ('v, 'p, 'x) fsm_action list" where
  "filterTruthy [] = []"
| "filterTruthy (None # xs) = filterTruthy xs"
| "filterTruthy (Some a # xs) = (if truthy a then a # filterTruthy xs else filterTruthy xs)"

text \<open>
  \<^verbatim>\<open>toActionObject(action, actionMap)\<close> of the flat machine; the statechart core has a
  helper of the same name.
\<close>

definition fsm_toActionObject ::
  "('v, 'p, 'x) fsm_action \<Rightarrow> (string \<rightharpoonup> ('v, 'p, 'x) fsm_action) option
    \<Rightarrow> ('v, 'p, 'x) fsm_action_object" where
  "fsm_toActionObject action actionMap =
     (let action' =
        (case action of
           NamedAction s \<Rightarrow>
             (case actionMap of
                None \<Rightarrow> action
              | Some am \<Rightarrow>
                  (case am s of
                     None \<Rightarrow> action
                   | Some a \<Rightarrow> if truthy a then a else action))
         | _ \<Rightarrow> action)
      in case action' of
           NamedAction s \<Rightarrow> \<lparr>atype = s, exec = None, assignment = None\<rparr>
         | FunctionAction n f \<Rightarrow> \<lparr>atype = n, exec = Some f, assignment = None\<rparr>
         | ObjectAction obj \<Rightarrow> obj)"

datatype ('v, 'p, 'x) transition_config =
    TransitionTarget string
  | TransitionObject
      "string option"
      "('v, 'p, 'x) fsm_action single_or_array"
      "('v fsm_context \<Rightarrow> 'p event_object \<Rightarrow> bool) option"

record ('v, 'p, 'x) state_config =
  on :: "(string \<rightharpoonup> ('v, 'p, 'x) transition_config single_or_array) option"
  entry :: "('v, 'p, 'x) fsm_action single_or_array"
  exit :: "('v, 'p, 'x) fsm_action single_or_array"

record ('v, 'p, 'x) fsm_config =
  fsm_id :: "string option"
  fsm_initial :: string
  fsm_context :: "'v fsm_context"
  fsm_states :: "string \<rightharpoonup> ('v, 'p, 'x) state_config"

record ('v, 'p, 'x) fsm_options =
  option_actions :: "(string \<rightharpoonup> ('v, 'p, 'x) fsm_action) option"

subsection \<open>States\<close>

record ('v, 'p, 'x) fsm_state =
  fsm_value :: string
  fsm_ctx :: "'v fsm_context"
  fsm_actions :: "('v, 'p, 'x) fsm_action_object list"
  fsm_changed :: "bool option"
  fsm_matches :: "string \<Rightarrow> bool"

definition createMatcher :: "string \<Rightarrow> string \<Rightarrow> bool" where
  "createMatcher v stateValue = (v = stateValue)"

definition createUnchangedState :: "string \<Rightarrow> 'v fsm_context \<Rightarrow> ('v, 'p, 'x) fsm_state" where
  "createUnchangedState v c =
     \<lparr>fsm_value = v, fsm_ctx = c, fsm_actions = [], fsm_changed = Some False,
      fsm_matches = createMatcher v\<rparr>"

datatype ('v, 'p, 'x) fsm_state_arg =
    StateName string
  | StateObject "('v, 'p, 'x) fsm_state"

subsection \<open>The transition function\<close>

text \<open>
  The body of the assign branch of the filter callback: a function assigner replaces the
  context; a property assigner writes each key into a copy, every property function
  reading the context as it was before this action.
\<close>

fun applyAssignment ::
  "('v, 'p) assignment \<Rightarrow> 'v fsm_context \<Rightarrow> 'p event_object \<Rightarrow> 'v fsm_context" where
  "applyAssignment (Assigner f) nextContext ev = f nextContext ev"
| "applyAssignment (PropertyAssigner props) nextContext ev =
     foldl (\<lambda>tmpContext (k, p).
              tmpContext(k \<mapsto> (case p of
                                 PropertyFunction f \<Rightarrow> f nextContext ev
                                | PropertyValue v \<Rightarrow> v)))
       nextContext props"

text \<open>
  The second \<^verbatim>\<open>.filter\<close> of \<^verbatim>\<open>allActions\<close>, whose callback updates the local
  variables \<^verbatim>\<open>nextContext\<close> and \<^verbatim>\<open>assigned\<close>: they are threaded through the list.
  An action of the assign type without an \<^verbatim>\<open>assignment\<close> makes
  \<^verbatim>\<open>Object.keys(undefined)\<close> throw.
\<close>

fun filterAssign ::
  "'p event_object \<Rightarrow> ('v, 'p, 'x) fsm_action_object list \<Rightarrow> 'v fsm_context \<times> bool
    \<Rightarrow> error + (('v, 'p, 'x) fsm_action_object list \<times> 'v fsm_context \<times> bool)" where
  "filterAssign ev [] (nextContext, assigned) = Inr ([], nextContext, assigned)"
| "filterAssign ev (action # rest) (nextContext, assigned) =
     (if atype action = ASSIGN_ACTION then
        (case assignment action of
           None \<Rightarrow> Inl TypeError
         | Some a \<Rightarrow> filterAssign ev rest (applyAssignment a nextContext ev, True))
      else
        (case filterAssign ev rest (nextContext, assigned) of
           Inl e \<Rightarrow> Inl e
         | Inr (kept, c, b) \<Rightarrow> Inr (action # kept, c, b)))"

text \<open>
  The canonical action list of a taken transition, before the assign filter:
  \<^verbatim>\<open>[].concat(stateConfig.exit, actions, nextStateConfig.entry).filter(a => a).map(toActionObject)\<close>.
\<close>

definition allActionObjects ::
  "('v, 'p, 'x) fsm_options \<Rightarrow> ('v, 'p, 'x) state_config
    \<Rightarrow> ('v, 'p, 'x) fsm_action single_or_array \<Rightarrow> ('v, 'p, 'x) state_config
    \<Rightarrow> ('v, 'p, 'x) fsm_action_object list" where
  "allActionObjects options stateConfig acts nextStateConfig =
     map (\<lambda>action. fsm_toActionObject action (option_actions options))
       (filterTruthy (concatItem (exit stateConfig) @ concatItem acts
          @ concatItem (entry nextStateConfig)))"

text \<open>The block guarded by \<^verbatim>\<open>if (cond(context, eventObject))\<close>.\<close>

definition takeTransition ::
  "('v, 'p, 'x) fsm_config \<Rightarrow> ('v, 'p, 'x) fsm_options \<Rightarrow> ('v, 'p, 'x) state_config
    \<Rightarrow> string \<Rightarrow> 'v fsm_context \<Rightarrow> 'p event_object
    \<Rightarrow> string \<Rightarrow> ('v, 'p, 'x) fsm_action single_or_array
    \<Rightarrow> error + ('v, 'p, 'x) fsm_state" where
  "takeTransition fsmConfig options stateConfig v c eventObject tgt acts =
     (case fsm_states fsmConfig tgt of
        None \<Rightarrow> Inl TypeError
      | Some nextStateConfig \<Rightarrow>
          (case filterAssign eventObject
                  (allActionObjects options stateConfig acts nextStateConfig) (c, False) of
             Inl e \<Rightarrow> Inl e
           | Inr (allActions, nextContext, assigned) \<Rightarrow>
               Inr \<lparr>fsm_value = tgt, fsm_ctx = nextContext, fsm_actions = allActions,
                    fsm_changed = Some (tgt \<noteq> v \<or> allActions \<noteq> [] \<or> assigned),
                    fsm_matches = createMatcher tgt\<rparr>))"

text \<open>
  The destructuring \<^verbatim>\<open>const { target = value, actions = [], cond = () => true } = ...\<close>.
\<close>

fun targetOf :: "string \<Rightarrow> ('v, 'p, 'x) transition_config \<Rightarrow> string" where
  "targetOf v (TransitionTarget t) = t"
| "targetOf v (TransitionObject t a g) = (case t of None \<Rightarrow> v | Some t' \<Rightarrow> t')"

fun actionsOf :: "('v, 'p, 'x) transition_config \<Rightarrow> ('v, 'p, 'x) fsm_action single_or_array" where
  "actionsOf (TransitionTarget t) = Array []"
| "actionsOf (TransitionObject t a g) = (case a of Undefined \<Rightarrow> Array [] | _ \<Rightarrow> a)"

fun condOf ::
  "('v, 'p, 'x) transition_config \<Rightarrow> 'v fsm_context \<Rightarrow> 'p event_object \<Rightarrow> bool" where
  "condOf (TransitionTarget t) = (\<lambda>c e. True)"
| "condOf (TransitionObject t a g) = (case g of None \<Rightarrow> (\<lambda>c e. True) | Some f \<Rightarrow> f)"

text \<open>The loop \<^verbatim>\<open>for (const transition of transitions)\<close> with its two returns.\<close>

fun transitionLoop ::
  "('v, 'p, 'x) fsm_config \<Rightarrow> ('v, 'p, 'x) fsm_options \<Rightarrow> ('v, 'p, 'x) state_config
    \<Rightarrow> string \<Rightarrow> 'v fsm_context \<Rightarrow> 'p event_object
    \<Rightarrow> ('v, 'p, 'x) transition_config option list
    \<Rightarrow> error + ('v, 'p, 'x) fsm_state" where
  "transitionLoop fsmConfig options stateConfig v c eventObject [] =
     Inr (createUnchangedState v c)"
| "transitionLoop fsmConfig options stateConfig v c eventObject (None # rest) =
     Inr (createUnchangedState v c)"
| "transitionLoop fsmConfig options stateConfig v c eventObject (Some t # rest) =
     (if condOf t c eventObject then
        takeTransition fsmConfig options stateConfig v c eventObject (targetOf v t) (actionsOf t)
      else transitionLoop fsmConfig options stateConfig v c eventObject rest)"

fun stateValueOf :: "('v, 'p, 'x) fsm_config \<Rightarrow> ('v, 'p, 'x) fsm_state_arg \<Rightarrow> string" where
  "stateValueOf fsmConfig (StateName s) = s"
| "stateValueOf fsmConfig (StateObject s) = fsm_value s"

fun stateContextOf ::
  "('v, 'p, 'x) fsm_config \<Rightarrow> ('v, 'p, 'x) fsm_state_arg \<Rightarrow> 'v fsm_context" where
  "stateContextOf fsmConfig (StateName s) = fsm_context fsmConfig"
| "stateContextOf fsmConfig (StateObject s) = fsm_ctx s"

text \<open>\<^verbatim>\<open>stateConfig.on[eventObject.type]\<close>, \<^verbatim>\<open>undefined\<close> for a missing key.\<close>

definition onLookup ::
  "(string \<rightharpoonup> ('v, 'p, 'x) transition_config single_or_array) \<Rightarrow> string
    \<Rightarrow> ('v, 'p, 'x) transition_config single_or_array" where
  "onLookup onConfig k = (case onConfig k of None \<Rightarrow> Undefined | Some t \<Rightarrow> t)"

text \<open>
  \<^verbatim>\<open>machine.transition(state, event)\<close>. The flag \<open>IS_PRODUCTION\<close> is the build-time
  constant of the same name: outside production a missing state is reported by name, in
  production reading \<^verbatim>\<open>stateConfig.on\<close> of \<^verbatim>\<open>undefined\<close> throws.
\<close>

definition fsm_transition ::
  "bool \<Rightarrow> ('v, 'p, 'x) fsm_config \<Rightarrow> ('v, 'p, 'x) fsm_options
    \<Rightarrow> ('v, 'p, 'x) fsm_state_arg \<Rightarrow> 'p event_arg \<Rightarrow> error + ('v, 'p, 'x) fsm_state" where
  "fsm_transition IS_PRODUCTION fsmConfig options state event =
     (let v = stateValueOf fsmConfig state;
          c = stateContextOf fsmConfig state;
          eventObject = toEventObject event
      in case fsm_states fsmConfig v of
           None \<Rightarrow> Inl (if IS_PRODUCTION then TypeError else StateNotFound v)
         | Some stateConfig \<Rightarrow>
             (case on stateConfig of
                None \<Rightarrow> Inr (createUnchangedState v c)
              | Some onConfig \<Rightarrow>
                  transitionLoop fsmConfig options stateConfig v c eventObject
                    (toArray (onLookup onConfig (etype eventObject)))))"

subsection \<open>The earlier revision of the same module (src/unnamed/part_001)\<close>

text \<open>
  The earlier revision has no action map, gives \<^verbatim>\<open>target\<close> no default and tests it for
  truthiness instead: \<^verbatim>\<open>target ? fsmConfig.states[target] : stateConfig\<close> and
  \<^verbatim>\<open>target ? target : value\<close>. \<open>truthyTarget\<close> is the target when it is truthy.
\<close>

fun truthyTarget :: "('v, 'p, 'x) transition_config \<Rightarrow> string option" where
  "truthyTarget (TransitionTarget t) = (if t = [] then None else Some t)"
| "truthyTarget (TransitionObject t a g) =
     (case t of None \<Rightarrow> None | Some t' \<Rightarrow> if t' = [] then None else Some t')"

definition takeTransition0 ::
  "('v, 'p, 'x) fsm_config \<Rightarrow> ('v, 'p, 'x) state_config
    \<Rightarrow> string \<Rightarrow> 'v fsm_context \<Rightarrow> 'p event_object
    \<Rightarrow> string option \<Rightarrow> ('v, 'p, 'x) fsm_action single_or_array
    \<Rightarrow> error + ('v, 'p, 'x) fsm_state" where
  "takeTransition0 fsmConfig stateConfig v c eventObject tgt acts =
     (case (case tgt of None \<Rightarrow> Some stateConfig | Some t \<Rightarrow> fsm_states fsmConfig t) of
        None \<Rightarrow> Inl TypeError
      | Some nextStateConfig \<Rightarrow>
          (case filterAssign eventObject
                  (allActionObjects \<lparr>option_actions = None\<rparr> stateConfig acts nextStateConfig)
                  (c, False) of
             Inl e \<Rightarrow> Inl e
           | Inr (allActions, nextContext, assigned) \<Rightarrow>
               (let nextValue = (case tgt of None \<Rightarrow> v | Some t \<Rightarrow> t)
                in Inr \<lparr>fsm_value = nextValue, fsm_ctx = nextContext, fsm_actions = allActions,
                         fsm_changed = Some (nextValue \<noteq> v \<or> allActions \<noteq> [] \<or> assigned),
                         fsm_matches = createMatcher nextValue\<rparr>)))"

fun transitionLoop0 ::
  "('v, 'p, 'x) fsm_config \<Rightarrow> ('v, 'p, 'x) state_config
    \<Rightarrow> string \<Rightarrow> 'v fsm_context \<Rightarrow> 'p event_object
    \<Rightarrow> ('v, 'p, 'x) transition_config option list
    \<Rightarrow> error + ('v, 'p, 'x) fsm_state" where
  "transitionLoop0 fsmConfig stateConfig v c eventObject [] =
     Inr \<lparr>fsm_value = v, fsm_ctx = c, fsm_actions = [], fsm_changed = Some False,
          fsm_matches = createMatcher v\<rparr>"
| "transitionLoop0 fsmConfig stateConfig v c eventObject (None # rest) =
     Inr \<lparr>fsm_value = v, fsm_ctx = c, fsm_actions = [], fsm_changed = Some False,
          fsm_matches = createMatcher v\<rparr>"
| "transitionLoop0 fsmConfig stateConfig v c eventObject (Some t # rest) =
     (if condOf t c eventObject then
        takeTransition0 fsmConfig stateConfig v c eventObject (truthyTarget t) (actionsOf t)
      else transitionLoop0 fsmConfig stateConfig v c eventObject rest)"

definition fsm_transition0 ::
  "bool \<Rightarrow> ('v, 'p, 'x) fsm_config
    \<Rightarrow> ('v, 'p, 'x) fsm_state_arg \<Rightarrow> 'p event_arg \<Rightarrow> error + ('v, 'p, 'x) fsm_state" where
  "fsm_transition0 IS_PRODUCTION fsmConfig state event =
     (let v = stateValueOf fsmConfig state;
          c = stateContextOf fsmConfig state;
          eventObject = toEventObject event
      in case fsm_states fsmConfig v of
           None \<Rightarrow> Inl (if IS_PRODUCTION then TypeError else StateNotFound v)
         | Some stateConfig \<Rightarrow>
             (case on stateConfig of
                None \<Rightarrow> Inr \<lparr>fsm_value = v, fsm_ctx = c, fsm_actions = [],
                              fsm_changed = Some False, fsm_matches = createMatcher v\<rparr>
              | Some onConfig \<Rightarrow>
                  transitionLoop0 fsmConfig stateConfig v c eventObject
                    (toArray (onLookup onConfig (etype eventObject)))))"

subsection \<open>Which transition the loop takes\<close>

text \<open>
  The loop stops at the first element that is \<^verbatim>\<open>undefined\<close> or whose guard holds. These
  definitions name the three outcomes, the context one assign action produces, and the
  test for an assign action; the theorems below are stated with them.
\<close>

datatype ('v, 'p, 'x) selection =
    NoCandidate
  | Forbidden
  | Selected "('v, 'p, 'x) transition_config"

fun selectTransition ::
  "'v fsm_context \<Rightarrow> 'p event_object \<Rightarrow> ('v, 'p, 'x) transition_config option list
    \<Rightarrow> ('v, 'p, 'x) selection" where
  "selectTransition c eventObject [] = NoCandidate"
| "selectTransition c eventObject (None # rest) = Forbidden"
| "selectTransition c eventObject (Some t # rest) =
     (if condOf t c eventObject then Selected t else selectTransition c eventObject rest)"

definition isAssign :: "('v, 'p, 'x) fsm_action_object \<Rightarrow> bool" where
  "isAssign action = (atype action = ASSIGN_ACTION)"

definition assignStep ::
  "'p event_object \<Rightarrow> 'v fsm_context \<Rightarrow> ('v, 'p, 'x) fsm_action_object \<Rightarrow> 'v fsm_context" where
  "assignStep ev c action =
     (case assignment action of None \<Rightarrow> c | Some a \<Rightarrow> applyAssignment a c ev)"

section \<open>The statechart core: packages/core/src/StateNode.ts and State.ts\<close>

subsection \<open>Data\<close>

text \<open>
  A state node is referred to by its \<^verbatim>\<open>path\<close>, the keys from the root machine node down
  to it (the root has the empty path); the parent of a node is the path without its last
  key. Two references are the same object exactly when the paths are equal.
\<close>

type_synonym node_ref = "string list"

datatype state_value = SVString string | SVMap "(string \<times> state_value) list"

text \<open>
  \<^verbatim>\<open>keys(stateValue)\<close> of an object state value is the list of first components, in
  \<^verbatim>\<open>Object.keys\<close> order. A state value is falsy only when it is the empty string.
\<close>

fun truthyValue :: "state_value \<Rightarrow> bool" where
  "truthyValue (SVString s) = (s \<noteq> [])"
| "truthyValue (SVMap kvs) = True"

text \<open>
  An event as the machine carries it (\<^verbatim>\<open>SCXML.Event\<close>): its name and, as \<^verbatim>\<open>data\<close>, the
  event object it wraps. The argument of \<^verbatim>\<open>transition\<close> is an event name, an event
  object, or an event that is wrapped already.
\<close>

record 'p scxml_event =
  ev_name :: string
  ev_data :: "'p event_object"

datatype 'p event_input =
    PlainEvent "'p event_arg"
  | SCXMLEvent "'p scxml_event"

record activity_definition =
  ad_type :: string
  ad_id :: string

text \<open>
  An action object. Beside its \<^verbatim>\<open>type\<close> the core reads the \<^verbatim>\<open>activity\<close> of a start or
  stop action, the \<^verbatim>\<open>_event\<close> and \<^verbatim>\<open>to\<close> of a resolved raise or send action and the
  \<^verbatim>\<open>get\<close> function of a pure action; \<open>a_rest\<close> stands for every other property
  (\<^verbatim>\<open>exec\<close>, \<^verbatim>\<open>assignment\<close>, \<^verbatim>\<open>delay\<close>, ...), which only helpers outside these files read.
\<close>

datatype ('c, 'p, 'x) action = Action
  (a_type: string)
  (a_activity: "activity_definition option")
  (a_event: "'p scxml_event option")
  (a_to: "string option")
  (a_get: "('c \<Rightarrow> 'p event_object \<Rightarrow> ('c, 'p, 'x) action list) option")
  (a_rest: 'x)

text \<open>
  A guard is either a predicate (the guard of type \<^verbatim>\<open>DEFAULT_GUARD_TYPE\<close>, with its
  name) or the name of a guard of the machine options. A guard function receives the
  context, the event object and the guard meta data, of which the state value and the
  wrapped event are kept here.
\<close>

type_synonym ('c, 'p) guard_function =
  "'c \<Rightarrow> 'p event_object \<Rightarrow> state_value \<Rightarrow> 'p scxml_event \<Rightarrow> bool"

datatype ('c, 'p) guard =
    GuardPredicate string "('c, 'p) guard_function"
  | GuardNamed string

record ('c, 'p, 'x) transition_definition =
  td_eventType :: string
  td_target :: "node_ref list option"
  td_source :: node_ref
  td_internal :: bool
  td_actions :: "('c, 'p, 'x) action list"
  td_cond :: "('c, 'p) guard option"
  td_in :: "state_value option"

datatype node_type = Atomic | Compound | Parallel | Final | History

text \<open>
  A state node after its constructor and the first read of \<^verbatim>\<open>transitions\<close> (which
  formats the configured transitions and appends the send and cancel actions of delayed
  transitions to \<^verbatim>\<open>onEntry\<close> and \<^verbatim>\<open>onExit\<close>). \<open>sn_states\<close> lists the child nodes in
  key order.
\<close>

datatype ('c, 'p, 'x) state_node = StateNode
  (sn_key: string)
  (sn_id: string)
  (sn_type: node_type)
  (sn_delimiter: string)
  (sn_initial: "string option")
  (sn_onEntry: "('c, 'p, 'x) action list")
  (sn_onExit: "('c, 'p, 'x) action list")
  (sn_activities: "activity_definition list")
  (sn_strict: bool)
  (sn_transient: bool)
  (sn_transitions: "('c, 'p, 'x) transition_definition list")
  (sn_meta: "'x option")
  (sn_data: "'x option")
  (sn_states: "(string \<times> ('c, 'p, 'x) state_node) list")

record ('c, 'p, 'x) machine =
  m_root :: "('c, 'p, 'x) state_node"
  m_guards :: "string \<rightharpoonup> ('c, 'p) guard_function"
  m_context :: 'c

text \<open>
  \<^verbatim>\<open>HistoryValue\<close>: the state value that was current and the history values of the child
  nodes.
\<close>

datatype history_value = HistoryValue
  (hv_current: "state_value option")
  (hv_states: "(string \<times> history_value option) list")

text \<open>
  A \<^verbatim>\<open>State\<close>. \<open>st_scxml_event\<close> is the property \<^verbatim>\<open>_event\<close> and \<open>st_event\<close> the property
  \<^verbatim>\<open>event\<close>. \<^verbatim>\<open>resolveTransition\<close> deletes the \<^verbatim>\<open>history\<close> of the state it stores as
  \<^verbatim>\<open>history\<close>, so a stored history is a state without one: a \<open>state_snapshot\<close>.
\<close>

record ('c, 'p, 'x) state_snapshot =
  st_value :: state_value
  st_context :: 'c
  st_scxml_event :: "'p scxml_event"
  st_event :: "'p event_object"
  st_historyValue :: "history_value option"
  st_actions :: "('c, 'p, 'x) action list"
  st_activities :: "string \<rightharpoonup> ('c, 'p, 'x) action option"
  st_meta :: "string \<rightharpoonup> 'x"
  st_events :: "'p event_object list"
  st_configuration :: "node_ref list"
  st_transitions :: "('c, 'p, 'x) transition_definition list"
  st_children :: "string \<rightharpoonup> 'x"
  st_changed :: "bool option"

record ('c, 'p, 'x) state = "('c, 'p, 'x) state_snapshot" +
  st_history :: "('c, 'p, 'x) state_snapshot option"

text \<open>\<^verbatim>\<open>StateTransition\<close>, the result of selecting transitions.\<close>

record ('c, 'p, 'x) state_transition =
  tr_transitions :: "('c, 'p, 'x) transition_definition list"
  tr_entrySet :: "node_ref list"
  tr_exitSet :: "node_ref list"
  tr_configuration :: "node_ref list"
  tr_source :: "('c, 'p, 'x) state option"
  tr_actions :: "('c, 'p, 'x) action list"

subsection \<open>Helpers of the files that are not part of the sources\<close>

text \<open>
  \<^verbatim>\<open>StateNode.ts\<close> imports its helpers from \<^verbatim>\<open>utils.ts\<close>, \<^verbatim>\<open>stateUtils.ts\<close>,
  \<^verbatim>\<open>actions.ts\<close>, \<^verbatim>\<open>actionTypes.ts\<close>, \<^verbatim>\<open>constants.ts\<close>, \<^verbatim>\<open>environment.ts\<close> and
  \<^verbatim>\<open>Actor.ts\<close>. Each helper and constant the modelled functions use is a field of this
  record, under its own name, and every function below takes the record as its first
  argument: what is proved holds whatever the helpers compute. Three of the fields stand for
  methods of \<^verbatim>\<open>StateNode\<close> that are built from such helpers alone and that no statement
  below is about: \<open>getRelativeStateNodes\<close> (the initial or historical leaf nodes of a
  transition target), \<open>historyValue\<close> and the test of a transition's \<^verbatim>\<open>in\<close> state
  (\<open>matchesState\<close>, \<open>pathToStateValue\<close>, \<open>path\<close>).
\<close>

record ('c, 'p, 'x) environment =
  IS_PRODUCTION :: bool
  actionTypes_start :: string
  actionTypes_stop :: string
  actionTypes_raise :: string
  actionTypes_send :: string
  actionTypes_log :: string
  actionTypes_assign :: string
  actionTypes_pure :: string
  actionTypes_invoke :: string
  actionTypes_nullEvent :: string
  actionTypes_update :: string
  SpecialTargets_Internal :: string
  toSCXMLEvent :: "'p event_input \<Rightarrow> 'p scxml_event"
  isBuiltInEvent :: "string \<Rightarrow> bool"
  toStateValue :: "state_value \<Rightarrow> string \<Rightarrow> state_value"
  pathToStateValue :: "string list \<Rightarrow> state_value"
  matchesState :: "state_value \<Rightarrow> state_value \<Rightarrow> bool"
  path :: "string list \<Rightarrow> state_value \<Rightarrow> state_value"
  getConfiguration ::
    "('c, 'p, 'x) machine \<Rightarrow> node_ref list \<Rightarrow> node_ref list \<Rightarrow> node_ref list"
  getValue :: "('c, 'p, 'x) machine \<Rightarrow> node_ref list \<Rightarrow> state_value"
  isInFinalState :: "('c, 'p, 'x) machine \<Rightarrow> node_ref list \<Rightarrow> node_ref \<Rightarrow> bool"
  getRelativeStateNodes ::
    "('c, 'p, 'x) machine \<Rightarrow> node_ref \<Rightarrow> history_value option \<Rightarrow> error + node_ref list"
  historyValue :: "('c, 'p, 'x) machine \<Rightarrow> state_value \<Rightarrow> history_value option"
  updateHistoryValue :: "history_value \<Rightarrow> state_value \<Rightarrow> history_value"
  doneState :: "string \<Rightarrow> 'x option \<Rightarrow> 'p event_object"
  mapContext :: "'x \<Rightarrow> 'c \<Rightarrow> 'p scxml_event \<Rightarrow> 'x"
  raise :: "'p event_object \<Rightarrow> ('c, 'p, 'x) action"
  start :: "activity_definition \<Rightarrow> ('c, 'p, 'x) action"
  stop :: "activity_definition \<Rightarrow> ('c, 'p, 'x) action"
  toActionObjects ::
    "('c, 'p, 'x) machine \<Rightarrow> ('c, 'p, 'x) action list \<Rightarrow> ('c, 'p, 'x) action list"
  toActionObject ::
    "('c, 'p, 'x) machine \<Rightarrow> node_ref \<Rightarrow> ('c, 'p, 'x) action \<Rightarrow> ('c, 'p, 'x) action"
  updateContext ::
    "'c \<Rightarrow> 'p scxml_event \<Rightarrow> ('c, 'p, 'x) action list \<Rightarrow> ('c, 'p, 'x) state option \<Rightarrow> 'c"
  resolveRaise :: "('c, 'p, 'x) action \<Rightarrow> ('c, 'p, 'x) action"
  resolveSend ::
    "('c, 'p, 'x) machine \<Rightarrow> ('c, 'p, 'x) action \<Rightarrow> 'c \<Rightarrow> 'p scxml_event
      \<Rightarrow> ('c, 'p, 'x) action"
  resolveLog ::
    "('c, 'p, 'x) action \<Rightarrow> 'c \<Rightarrow> 'p scxml_event \<Rightarrow> ('c, 'p, 'x) action"
  createInvocableActor :: "activity_definition \<Rightarrow> 'x"
  initEvent :: "'p scxml_event"

text \<open>
  The list utilities are the list functions of the library: \<^verbatim>\<open>flatten\<close> is \<^const>\<open>concat\<close>,
  \<^verbatim>\<open>keys\<close> is \<^term>\<open>map fst\<close>, \<^verbatim>\<open>partition(items, predicate)\<close> is \<^const>\<open>partition\<close>, and
  \<^verbatim>\<open>has(iterable, item)\<close> is membership. A \<^verbatim>\<open>Set\<close> built from an array iterates over the
  first occurrences of its elements in array order.
\<close>

definition has :: "'a list \<Rightarrow> 'a \<Rightarrow> bool" where
  "has iterable item = (item \<in> set iterable)"

definition setOf :: "'a list \<Rightarrow> 'a list" where
  "setOf xs = rev (remdups (rev xs))"

text \<open>\<^verbatim>\<open>xs.map(f)\<close> for an \<open>f\<close> that can throw: the first error ends the loop.\<close>

fun mapE :: "('a \<Rightarrow> error + 'b) \<Rightarrow> 'a list \<Rightarrow> error + 'b list" where
  "mapE f [] = Inr []"
| "mapE f (x # xs) =
     (case f x of
        Inl e \<Rightarrow> Inl e
      | Inr y \<Rightarrow> (case mapE f xs of Inl e \<Rightarrow> Inl e | Inr ys \<Rightarrow> Inr (y # ys)))"

subsection \<open>The tree of state nodes\<close>

fun getNode :: "('c, 'p, 'x) state_node \<Rightarrow> node_ref \<Rightarrow> ('c, 'p, 'x) state_node option" where
  "getNode n [] = Some n"
| "getNode n (k # ks) =
     (case map_of (sn_states n) k of None \<Rightarrow> None | Some c \<Rightarrow> getNode c ks)"

definition nodeAt :: "('c, 'p, 'x) machine \<Rightarrow> node_ref \<Rightarrow> ('c, 'p, 'x) state_node option" where
  "nodeAt m r = getNode (m_root m) r"

text \<open>\<^verbatim>\<open>sn.parent\<close>: \<^verbatim>\<open>undefined\<close> for the root.\<close>

definition parent :: "node_ref \<Rightarrow> node_ref option" where
  "parent r = (if r = [] then None else Some (butlast r))"

text \<open>
  The properties of a node read through a reference. A path that names no node of the
  machine is no reference of the program; the accessors give it the empty value.
\<close>

definition node_type_of :: "('c, 'p, 'x) machine \<Rightarrow> node_ref \<Rightarrow> node_type option" where
  "node_type_of m r = map_option sn_type (nodeAt m r)"

definition node_id :: "('c, 'p, 'x) machine \<Rightarrow> node_ref \<Rightarrow> string" where
  "node_id m r = (case nodeAt m r of None \<Rightarrow> [] | Some n \<Rightarrow> sn_id n)"

definition node_data :: "('c, 'p, 'x) machine \<Rightarrow> node_ref \<Rightarrow> 'x option" where
  "node_data m r = (case nodeAt m r of None \<Rightarrow> None | Some n \<Rightarrow> sn_data n)"

definition node_meta :: "('c, 'p, 'x) machine \<Rightarrow> node_ref \<Rightarrow> 'x option" where
  "node_meta m r = (case nodeAt m r of None \<Rightarrow> None | Some n \<Rightarrow> sn_meta n)"

definition onEntry :: "('c, 'p, 'x) machine \<Rightarrow> node_ref \<Rightarrow> ('c, 'p, 'x) action list" where
  "onEntry m r = (case nodeAt m r of None \<Rightarrow> [] | Some n \<Rightarrow> sn_onEntry n)"

definition onExit :: "('c, 'p, 'x) machine \<Rightarrow> node_ref \<Rightarrow> ('c, 'p, 'x) action list" where
  "onExit m r = (case nodeAt m r of None \<Rightarrow> [] | Some n \<Rightarrow> sn_onExit n)"

definition activities :: "('c, 'p, 'x) machine \<Rightarrow> node_ref \<Rightarrow> activity_definition list" where
  "activities m r = (case nodeAt m r of None \<Rightarrow> [] | Some n \<Rightarrow> sn_activities n)"

definition transient :: "('c, 'p, 'x) machine \<Rightarrow> node_ref \<Rightarrow> bool" where
  "transient m r = (case nodeAt m r of None \<Rightarrow> False | Some n \<Rightarrow> sn_transient n)"

definition delimiter :: "('c, 'p, 'x) machine \<Rightarrow> node_ref \<Rightarrow> string" where
  "delimiter m r = (case nodeAt m r of None \<Rightarrow> [] | Some n \<Rightarrow> sn_delimiter n)"

text \<open>
  Modelled from the spec: \<^verbatim>\<open>getChildren\<close> of \<^verbatim>\<open>stateUtils.ts\<close>, the \<open>children(n)\<close> of the
  configuration algebra: the child nodes of a node, in key order.
\<close>

definition getChildren :: "('c, 'p, 'x) machine \<Rightarrow> node_ref \<Rightarrow> node_ref list" where
  "getChildren m r =
     (case nodeAt m r of None \<Rightarrow> [] | Some n \<Rightarrow> map (\<lambda>kc. r @ [fst kc]) (sn_states n))"

text \<open>
  The document order. The constructor of the root numbers the tree by \<^verbatim>\<open>dfs\<close>, a
  pre-order walk that starts at 0: \<open>order_of m r\<close> is the position of \<open>r\<close> in that walk.
\<close>

fun dfs :: "('c, 'p, 'x) state_node \<Rightarrow> node_ref list" where
  "dfs (StateNode k i t dl ini en ex ac st tr ts mt dt cs) =
     [] # concat (map (\<lambda>(key, child). map ((#) key) (dfs child)) cs)"

definition order_of :: "('c, 'p, 'x) machine \<Rightarrow> node_ref \<Rightarrow> int" where
  "order_of m r = int (length (takeWhile (\<lambda>q. q \<noteq> r) (dfs (m_root m))))"

text \<open>
  \<^verbatim>\<open>idMap\<close> of the root: each constructor assigns, child by child, the child's id and then
  the child's own \<^verbatim>\<open>idMap\<close>; a later assignment of the same id replaces an earlier one.
  \<open>idEntries\<close> lists the assignments in order.
\<close>

fun idEntries :: "('c, 'p, 'x) state_node \<Rightarrow> (string \<times> node_ref) list" where
  "idEntries (StateNode k i t dl ini en ex ac st tr ts mt dt cs) =
     concat (map (\<lambda>(key, child).
                    (sn_id child, [key]) # map (\<lambda>(ident, r). (ident, key # r)) (idEntries child))
               cs)"

definition idMap :: "('c, 'p, 'x) machine \<Rightarrow> string \<rightharpoonup> node_ref" where
  "idMap m = map_of (rev (idEntries (m_root m)))"

definition STATE_IDENTIFIER :: string where
  "STATE_IDENTIFIER = ''#''"

definition NULL_EVENT :: string where
  "NULL_EVENT = []"

definition WILDCARD :: string where
  "WILDCARD = ''*''"

definition isStateId :: "string \<Rightarrow> bool" where
  "isStateId str = (case str of [] \<Rightarrow> False | ch # rest \<Rightarrow> [ch] = STATE_IDENTIFIER)"

definition getStateNodeById ::
  "('c, 'p, 'x) machine \<Rightarrow> node_ref \<Rightarrow> string \<Rightarrow> error + node_ref" where
  "getStateNodeById m this stateId =
     (let resolvedStateId =
            (if isStateId stateId then drop (length STATE_IDENTIFIER) stateId else stateId)
      in if resolvedStateId = node_id m this then Inr this
         else (case idMap m resolvedStateId of
                 None \<Rightarrow> Inl (StateNodeNotFound resolvedStateId)
               | Some stateNode \<Rightarrow> Inr stateNode))"

definition getStateNode ::
  "('c, 'p, 'x) machine \<Rightarrow> node_ref \<Rightarrow> string \<Rightarrow> error + node_ref" where
  "getStateNode m this stateKey =
     (if isStateId stateKey then getStateNodeById m [] stateKey
      else (case nodeAt m this of
              None \<Rightarrow> Inl (ChildStateNotFound stateKey (node_id m this))
            | Some n \<Rightarrow>
                (case map_of (sn_states n) stateKey of
                   None \<Rightarrow> Inl (ChildStateNotFound stateKey (sn_id n))
                 | Some child \<Rightarrow> Inr (this @ [stateKey]))))"

text \<open>
  \<^verbatim>\<open>getStateNodes(state)\<close> for a state value. The recursion follows the \<^verbatim>\<open>initial\<close> keys,
  which can name nodes by id anywhere in the machine, so it is bounded by a fuel argument.
  In the branch \<^verbatim>\<open>[this.states[stateValue]]\<close> a key that is no own key of \<^verbatim>\<open>states\<close>
  (an id) gives an \<^verbatim>\<open>undefined\<close> element, reported here as the \<^verbatim>\<open>TypeError\<close> its first
  use raises.
\<close>

fun getStateNodes ::
  "('c, 'p, 'x) environment \<Rightarrow> ('c, 'p, 'x) machine \<Rightarrow> nat \<Rightarrow> node_ref \<Rightarrow> state_value
    \<Rightarrow> error + node_ref list" where
  "getStateNodes env m 0 this state = Inl OutOfFuel"
| "getStateNodes env m (Suc fuel) this state =
     (if \<not> truthyValue state then Inr []
      else
        (case toStateValue env state (delimiter m this) of
           SVString stateValue \<Rightarrow>
             (case getStateNode m this stateValue of
                Inl e \<Rightarrow> Inl e
              | Inr stateNode \<Rightarrow>
                  (case nodeAt m stateNode of
                     None \<Rightarrow> Inl TypeError
                   | Some n \<Rightarrow>
                       (case sn_initial n of
                          Some initialStateValue \<Rightarrow>
                            getStateNodes env m fuel this
                              (SVMap [(stateValue, SVString initialStateValue)])
                        | None \<Rightarrow>
                            (case nodeAt m (this @ [stateValue]) of
                               None \<Rightarrow> Inl TypeError
                             | Some child \<Rightarrow> Inr [this @ [stateValue]]))))
         | SVMap kvs \<Rightarrow>
             (case mapE (getStateNode m this) (map fst kvs) of
                Inl e \<Rightarrow> Inl e
              | Inr subStateNodes \<Rightarrow>
                  (case mapE (\<lambda>(subStateKey, subStateValue).
                                case getStateNode m this subStateKey of
                                  Inl e \<Rightarrow> Inl e
                                | Inr subStateNode \<Rightarrow>
                                    getStateNodes env m fuel subStateNode subStateValue)
                          kvs of
                     Inl e \<Rightarrow> Inl e
                   | Inr allSubStateNodes \<Rightarrow> Inr (subStateNodes @ concat allSubStateNodes)))))"

subsection \<open>Selecting a transition\<close>

text \<open>
  \<^verbatim>\<open>getCandidates(eventName)\<close>: the transitions of a node that an event name can take. The
  node keeps the lists it has computed in \<^verbatim>\<open>__cache.candidates\<close>, a map from event names
  to lists (own keys only); \<open>getCandidatesCached\<close> is the method with that cache as state.
\<close>

definition getCandidates ::
  "('c, 'p, 'x) transition_definition list \<Rightarrow> string \<Rightarrow> ('c, 'p, 'x) transition_definition list" where
  "getCandidates transitions eventName =
     (let transient = (eventName = NULL_EVENT)
      in filter (\<lambda>transition.
                   let sameEventType = (td_eventType transition = eventName)
                   in if transient then sameEventType
                      else sameEventType \<or> td_eventType transition = WILDCARD)
           transitions)"


text \<open>
  \<^verbatim>\<open>evaluateGuard\<close>, inside the \<^verbatim>\<open>try\<close> of \<^verbatim>\<open>next\<close>: a named guard that the machine
  options do not implement throws, and \<^verbatim>\<open>next\<close> rethrows.
\<close>

definition evaluateGuard ::
  "('c, 'p, 'x) machine \<Rightarrow> ('c, 'p) guard \<Rightarrow> 'c \<Rightarrow> 'p scxml_event \<Rightarrow> ('c, 'p, 'x) state
    \<Rightarrow> error + bool" where
  "evaluateGuard m grd c ev state =
     (case grd of
        GuardPredicate nm predicate \<Rightarrow> Inr (predicate c (ev_data ev) (st_value state) ev)
      | GuardNamed guardType \<Rightarrow>
          (case m_guards m guardType of
             None \<Rightarrow> Inl (GuardError guardType)
           | Some condFn \<Rightarrow> Inr (condFn c (ev_data ev) (st_value state) ev)))"

text \<open>The test of the \<^verbatim>\<open>in\<close> property of a candidate.\<close>

definition isInState ::
  "('c, 'p, 'x) environment \<Rightarrow> ('c, 'p, 'x) machine \<Rightarrow> node_ref \<Rightarrow> state_value option
    \<Rightarrow> ('c, 'p, 'x) state \<Rightarrow> error + bool" where
  "isInState env m this stateIn state =
     (case stateIn of
        None \<Rightarrow> Inr True
      | Some sv \<Rightarrow>
          if \<not> truthyValue sv then Inr True
          else
            (case sv of
               SVString str \<Rightarrow>
                 if isStateId str then
                   (case getStateNodeById m this str of
                      Inl e \<Rightarrow> Inl e
                    | Inr r \<Rightarrow> Inr (matchesState env (pathToStateValue env r) (st_value state)))
                 else Inr (matchesState env (toStateValue env sv (delimiter m this))
                             (path env (take (length this - 2) this) (st_value state)))
             | SVMap kvs \<Rightarrow>
                 Inr (matchesState env (toStateValue env sv (delimiter m this))
                        (path env (take (length this - 2) this) (st_value state)))))"

text \<open>
  The loop of \<^verbatim>\<open>next\<close> over the candidates: the first one whose guard passes and whose
  \<^verbatim>\<open>in\<close> state matches is selected.
\<close>

fun selectCandidate ::
  "('c, 'p, 'x) environment \<Rightarrow> ('c, 'p, 'x) machine \<Rightarrow> node_ref \<Rightarrow> ('c, 'p, 'x) state
    \<Rightarrow> 'p scxml_event \<Rightarrow> ('c, 'p, 'x) transition_definition list
    \<Rightarrow> error + ('c, 'p, 'x) transition_definition option" where
  "selectCandidate env m this state ev [] = Inr None"
| "selectCandidate env m this state ev (candidate # rest) =
     (case isInState env m this (td_in candidate) state of
        Inl e \<Rightarrow> Inl e
      | Inr inState \<Rightarrow>
          (case (case td_cond candidate of
                   None \<Rightarrow> Inr True
                 | Some grd \<Rightarrow> evaluateGuard m grd (st_context state) ev state) of
             Inl e \<Rightarrow> Inl e
           | Inr guardPassed \<Rightarrow>
               if guardPassed \<and> inState then Inr (Some candidate)
               else selectCandidate env m this state ev rest))"

text \<open>
  \<^verbatim>\<open>escapes\<close> and \<^verbatim>\<open>nodesFromChild\<close> walk the \<^verbatim>\<open>parent\<close> links; \<open>properAncestors\<close> is
  that walk, nearest ancestor first.
\<close>

function properAncestors :: "node_ref \<Rightarrow> node_ref list" where
  "properAncestors r = (if r = [] then [] else butlast r # properAncestors (butlast r))"
  by pat_completeness auto
termination
  by (relation "measure length") auto

definition escapes :: "node_ref \<Rightarrow> node_ref \<Rightarrow> bool" where
  "escapes this stateNode =
     (if this = stateNode then False else \<not> has (properAncestors this) stateNode)"

definition nodesFromChild :: "node_ref \<Rightarrow> node_ref \<Rightarrow> node_ref list" where
  "nodesFromChild this childStateNode =
     (if escapes childStateNode this then []
      else takeWhile (\<lambda>marker. marker \<noteq> this) (childStateNode # properAncestors childStateNode)
             @ [this])"

definition nextTransition ::
  "('c, 'p, 'x) environment \<Rightarrow> ('c, 'p, 'x) machine \<Rightarrow> node_ref \<Rightarrow> ('c, 'p, 'x) state
    \<Rightarrow> 'p scxml_event \<Rightarrow> error + ('c, 'p, 'x) state_transition option" where
  "nextTransition env m this state ev =
     (case selectCandidate env m this state ev
             (getCandidates (case nodeAt m this of None \<Rightarrow> [] | Some n \<Rightarrow> sn_transitions n)
                (ev_name ev)) of
        Inl e \<Rightarrow> Inl e
      | Inr None \<Rightarrow> Inr None
      | Inr (Some selectedTransition) \<Rightarrow>
          (let nextStateNodes =
                 (case td_target selectedTransition of None \<Rightarrow> [] | Some t \<Rightarrow> t);
               acts = td_actions selectedTransition
           in if nextStateNodes = [] then
                Inr (Some \<lparr>tr_transitions = [selectedTransition], tr_entrySet = [],
                          tr_exitSet = [],
                          tr_configuration = (if truthyValue (st_value state) then [this] else []),
                          tr_source = Some state, tr_actions = acts\<rparr>)
              else
                (case mapE (\<lambda>stateNode. getRelativeStateNodes env m stateNode
                                          (st_historyValue state))
                        nextStateNodes of
                   Inl e \<Rightarrow> Inl e
                 | Inr relative \<Rightarrow>
                     (let allNextStateNodes = concat relative;
                          isInternal = td_internal selectedTransition;
                          reentryNodes =
                            (if isInternal then []
                             else concat (map (nodesFromChild this) allNextStateNodes))
                      in Inr (Some \<lparr>tr_transitions = [selectedTransition],
                                   tr_entrySet = reentryNodes,
                                   tr_exitSet = (if isInternal then [] else [this]),
                                   tr_configuration = allNextStateNodes,
                                   tr_source = Some state, tr_actions = acts\<rparr>)))))"

text \<open>
  \<^verbatim>\<open>_transition\<close> with \<^verbatim>\<open>transitionLeafNode\<close>, \<^verbatim>\<open>transitionCompoundNode\<close> and
  \<^verbatim>\<open>transitionParallelNode\<close>. \<open>parallelTransitions\<close> is the loop that fills
  \<^verbatim>\<open>transitionMap\<close>: the state transitions of the regions, in key order.
\<close>

definition orNext ::
  "('c, 'p, 'x) environment \<Rightarrow> ('c, 'p, 'x) machine \<Rightarrow> node_ref \<Rightarrow> ('c, 'p, 'x) state
    \<Rightarrow> 'p scxml_event \<Rightarrow> ('c, 'p, 'x) state_transition option
    \<Rightarrow> error + ('c, 'p, 'x) state_transition option" where
  "orNext env m this state ev nxt =
     (case nxt of
        None \<Rightarrow> nextTransition env m this state ev
      | Some t \<Rightarrow>
          if tr_transitions t = [] then nextTransition env m this state ev else Inr (Some t))"

fun private_transition ::
  "('c, 'p, 'x) environment \<Rightarrow> ('c, 'p, 'x) machine \<Rightarrow> node_ref \<Rightarrow> state_value
    \<Rightarrow> ('c, 'p, 'x) state \<Rightarrow> 'p scxml_event \<Rightarrow> error + ('c, 'p, 'x) state_transition option"
and parallelTransitions ::
  "('c, 'p, 'x) environment \<Rightarrow> ('c, 'p, 'x) machine \<Rightarrow> node_ref \<Rightarrow> (string \<times> state_value) list
    \<Rightarrow> ('c, 'p, 'x) state \<Rightarrow> 'p scxml_event \<Rightarrow> error + ('c, 'p, 'x) state_transition list"
where
  "private_transition env m this (SVString stateValue) state ev =
     (case getStateNode m this stateValue of
        Inl e \<Rightarrow> Inl e
      | Inr stateNode \<Rightarrow>
          (case nextTransition env m stateNode state ev of
             Inl e \<Rightarrow> Inl e
           | Inr nxt \<Rightarrow> orNext env m this state ev nxt))"
| "private_transition env m this (SVMap [(subStateKey, subStateValue)]) state ev =
     (case getStateNode m this subStateKey of
        Inl e \<Rightarrow> Inl e
      | Inr stateNode \<Rightarrow>
          (case private_transition env m stateNode subStateValue state ev of
             Inl e \<Rightarrow> Inl e
           | Inr nxt \<Rightarrow> orNext env m this state ev nxt))"
| "private_transition env m this (SVMap kvs) state ev =
     (case parallelTransitions env m this kvs state ev of
        Inl e \<Rightarrow> Inl e
      | Inr stateTransitions \<Rightarrow>
          (let enabledTransitions = concat (map tr_transitions stateTransitions);
               willTransition = (\<exists>st \<in> set stateTransitions. tr_transitions st \<noteq> [])
           in if \<not> willTransition then nextTransition env m this state ev
              else Inr (Some \<lparr>tr_transitions = enabledTransitions,
                             tr_entrySet = concat (map tr_entrySet stateTransitions),
                             tr_exitSet = concat (map tr_exitSet stateTransitions),
                             tr_configuration = concat (map tr_configuration stateTransitions),
                             tr_source = Some state,
                             tr_actions = concat (map tr_actions stateTransitions)\<rparr>)))"
| "parallelTransitions env m this [] state ev = Inr []"
| "parallelTransitions env m this ((subStateKey, subStateValue) # rest) state ev =
     (if \<not> truthyValue subStateValue then parallelTransitions env m this rest state ev
      else
        (case getStateNode m this subStateKey of
           Inl e \<Rightarrow> Inl e
         | Inr subStateNode \<Rightarrow>
             (case private_transition env m subStateNode subStateValue state ev of
                Inl e \<Rightarrow> Inl e
              | Inr nxt \<Rightarrow>
                  (case parallelTransitions env m this rest state ev of
                     Inl e \<Rightarrow> Inl e
                   | Inr others \<Rightarrow>
                       Inr (case nxt of None \<Rightarrow> others | Some t \<Rightarrow> t # others)))))"

subsection \<open>The actions of a step\<close>

text \<open>
  The done events \<^verbatim>\<open>getActions\<close> collects for one node of the entry set: none unless the
  node is final; a final node without a parent makes \<^verbatim>\<open>parent.id\<close> throw.
\<close>

definition doneEventsOf ::
  "('c, 'p, 'x) environment \<Rightarrow> ('c, 'p, 'x) machine \<Rightarrow> ('c, 'p, 'x) state_transition \<Rightarrow> 'c
    \<Rightarrow> 'p scxml_event \<Rightarrow> node_ref \<Rightarrow> error + 'p event_object list" where
  "doneEventsOf env m transition currentContext ev sn =
     (if node_type_of m sn \<noteq> Some Final then Inr []
      else
        (case parent sn of
           None \<Rightarrow> Inl TypeError
         | Some par \<Rightarrow>
             (let events =
                    [doneState env (node_id m sn) (node_data m sn),
                     doneState env (node_id m par)
                       (case node_data m sn of
                          None \<Rightarrow> None
                        | Some d \<Rightarrow> Some (mapContext env d currentContext ev))]
              in Inr (case parent par of
                        None \<Rightarrow> events
                      | Some grandparent \<Rightarrow>
                          if node_type_of m grandparent = Some Parallel
                             \<and> list_all (isInFinalState env m (tr_configuration transition))
                                  (getChildren m grandparent)
                          then events @ [doneState env (node_id m grandparent)
                                           (node_data m grandparent)]
                          else events))))"

text \<open>
  The two loops of \<^verbatim>\<open>getActions\<close> that extend the entry set and the exit set of the state
  transition, and the reset for a transition without a source (the initial state). The
  exit loop reads the exit set it is extending.
\<close>

definition hasParentIn :: "node_ref list \<Rightarrow> node_ref \<Rightarrow> bool" where
  "hasParentIn exitSet sn = (case parent sn of None \<Rightarrow> False | Some p \<Rightarrow> has exitSet p)"

definition entrySetOf ::
  "node_ref \<Rightarrow> ('c, 'p, 'x) state_transition \<Rightarrow> node_ref list \<Rightarrow> node_ref list
    \<Rightarrow> node_ref list" where
  "entrySetOf this transition prevConfig resolvedConfig =
     (let entrySet = tr_entrySet transition @ filter (\<lambda>sn. \<not> has prevConfig sn) resolvedConfig
      in if tr_source transition = None then entrySet @ [this] else entrySet)"

definition exitSetOf ::
  "('c, 'p, 'x) state_transition \<Rightarrow> node_ref list \<Rightarrow> node_ref list \<Rightarrow> node_ref list" where
  "exitSetOf transition prevConfig resolvedConfig =
     (let exitSet =
            foldl (\<lambda>exitSet sn.
                     if \<not> has resolvedConfig sn \<or> hasParentIn exitSet sn then exitSet @ [sn]
                     else exitSet)
              (tr_exitSet transition) prevConfig
      in if tr_source transition = None then [] else exitSet)"

text \<open>
  \<^verbatim>\<open>exitSet.sort((a, b) => b.order - a.order)\<close> and \<^verbatim>\<open>entrySet.sort((a, b) => a.order - b.order)\<close>,
  each followed by \<^verbatim>\<open>new Set(...)\<close>: the nodes whose actions are collected, in the order
  in which they are collected. The sort is stable.
\<close>

definition exitStatesOf :: "('c, 'p, 'x) machine \<Rightarrow> node_ref list \<Rightarrow> node_ref list" where
  "exitStatesOf m exitSet = setOf (sort_key (\<lambda>sn. - order_of m sn) exitSet)"

definition entryStatesOf :: "('c, 'p, 'x) machine \<Rightarrow> node_ref list \<Rightarrow> node_ref list" where
  "entryStatesOf m entrySet = setOf (sort_key (order_of m) entrySet)"

definition entryActionsOf ::
  "('c, 'p, 'x) environment \<Rightarrow> ('c, 'p, 'x) machine \<Rightarrow> node_ref \<Rightarrow> ('c, 'p, 'x) action list" where
  "entryActionsOf env m stateNode = map (start env) (activities m stateNode) @ onEntry m stateNode"

definition exitActionsOf ::
  "('c, 'p, 'x) environment \<Rightarrow> ('c, 'p, 'x) machine \<Rightarrow> node_ref \<Rightarrow> ('c, 'p, 'x) action list" where
  "exitActionsOf env m stateNode = onExit m stateNode @ map (stop env) (activities m stateNode)"

text \<open>
  \<^verbatim>\<open>getActions\<close>. \<open>previousNodes\<close> is the first argument of \<^verbatim>\<open>getConfiguration\<close>
  and \<open>stepSets\<close> the entry set and the exit set after the two loops.
\<close>

definition previousNodes ::
  "('c, 'p, 'x) environment \<Rightarrow> ('c, 'p, 'x) machine \<Rightarrow> nat \<Rightarrow> node_ref
    \<Rightarrow> ('c, 'p, 'x) state option \<Rightarrow> error + node_ref list" where
  "previousNodes env m fuel this prevState =
     (case prevState of
        None \<Rightarrow> Inr [this]
      | Some ps \<Rightarrow> getStateNodes env m fuel this (st_value ps))"

definition stepSets ::
  "('c, 'p, 'x) environment \<Rightarrow> ('c, 'p, 'x) machine \<Rightarrow> node_ref
    \<Rightarrow> ('c, 'p, 'x) state_transition \<Rightarrow> node_ref list \<Rightarrow> node_ref list \<times> node_ref list" where
  "stepSets env m this transition nodes =
     (let prevConfig = getConfiguration env m [] nodes;
          resolvedConfig =
            (if tr_configuration transition \<noteq> []
             then getConfiguration env m prevConfig (tr_configuration transition)
             else prevConfig)
      in (entrySetOf this transition prevConfig resolvedConfig,
          exitSetOf transition prevConfig resolvedConfig))"

definition getActions ::
  "('c, 'p, 'x) environment \<Rightarrow> ('c, 'p, 'x) machine \<Rightarrow> nat \<Rightarrow> node_ref
    \<Rightarrow> ('c, 'p, 'x) state_transition \<Rightarrow> 'c \<Rightarrow> 'p scxml_event \<Rightarrow> ('c, 'p, 'x) state option
    \<Rightarrow> error + ('c, 'p, 'x) action list" where
  "getActions env m fuel this transition currentContext ev prevState =
     (case previousNodes env m fuel this prevState of
        Inl e \<Rightarrow> Inl e
      | Inr nodes \<Rightarrow>
          (let entrySet = fst (stepSets env m this transition nodes);
               exitSet = snd (stepSets env m this transition nodes)
           in case mapE (doneEventsOf env m transition currentContext ev) entrySet of
                Inl e \<Rightarrow> Inl e
              | Inr events \<Rightarrow>
                  (let doneEvents = concat events;
                       entryActions =
                         concat (map (entryActionsOf env m) (entryStatesOf m entrySet))
                           @ map (raise env) doneEvents;
                       exitActions = concat (map (exitActionsOf env m) (exitStatesOf m exitSet))
                   in Inr (toActionObjects env m
                             (exitActions @ tr_actions transition @ entryActions)))))"

subsection \<open>Building the next state\<close>

text \<open>The argument of the \<^verbatim>\<open>State\<close> constructor and the constructor.\<close>

record ('c, 'p, 'x) state_init =
  sc_value :: state_value
  sc_context :: 'c
  sc_event :: "'p scxml_event"
  sc_historyValue :: "history_value option"
  sc_history :: "('c, 'p, 'x) state_snapshot option"
  sc_actions :: "('c, 'p, 'x) action list option"
  sc_activities :: "(string \<rightharpoonup> ('c, 'p, 'x) action option) option"
  sc_meta :: "(string \<rightharpoonup> 'x) option"
  sc_events :: "'p event_object list option"
  sc_configuration :: "node_ref list"
  sc_transitions :: "('c, 'p, 'x) transition_definition list"
  sc_children :: "string \<rightharpoonup> 'x"

definition newState :: "('c, 'p, 'x) state_init \<Rightarrow> ('c, 'p, 'x) state" where
  "newState config =
     \<lparr>st_value = sc_value config,
      st_context = sc_context config,
      st_scxml_event = sc_event config,
      st_event = ev_data (sc_event config),
      st_historyValue = sc_historyValue config,
      st_actions = (case sc_actions config of None \<Rightarrow> [] | Some a \<Rightarrow> a),
      st_activities = (case sc_activities config of None \<Rightarrow> Map.empty | Some a \<Rightarrow> a),
      st_meta = (case sc_meta config of None \<Rightarrow> Map.empty | Some a \<Rightarrow> a),
      st_events = (case sc_events config of None \<Rightarrow> [] | Some a \<Rightarrow> a),
      st_configuration = sc_configuration config,
      st_transitions = sc_transitions config,
      st_children = sc_children config,
      st_changed = None,
      st_history = sc_history config\<rparr>"

text \<open>The state a \<^verbatim>\<open>history\<close> property holds once its own \<^verbatim>\<open>history\<close> is deleted.\<close>

definition snapshot :: "('c, 'p, 'x) state \<Rightarrow> ('c, 'p, 'x) state_snapshot" where
  "snapshot s = state_snapshot.truncate s"

text \<open>The loop over the actions that starts and stops activities.\<close>

fun activitiesLoop ::
  "('c, 'p, 'x) environment \<Rightarrow> (string \<rightharpoonup> ('c, 'p, 'x) action option)
    \<Rightarrow> ('c, 'p, 'x) action list \<Rightarrow> error + (string \<rightharpoonup> ('c, 'p, 'x) action option)" where
  "activitiesLoop env acts [] = Inr acts"
| "activitiesLoop env acts (action # rest) =
     (if a_type action = actionTypes_start env then
        (case a_activity action of
           None \<Rightarrow> Inl TypeError
         | Some ad \<Rightarrow> activitiesLoop env (acts(ad_type ad \<mapsto> Some action)) rest)
      else if a_type action = actionTypes_stop env then
        (case a_activity action of
           None \<Rightarrow> Inl TypeError
         | Some ad \<Rightarrow> activitiesLoop env (acts(ad_type ad \<mapsto> None)) rest)
      else activitiesLoop env acts rest)"

text \<open>The \<^verbatim>\<open>switch\<close> that resolves one action that is no assign action.\<close>

definition resolveAction ::
  "('c, 'p, 'x) environment \<Rightarrow> ('c, 'p, 'x) machine \<Rightarrow> node_ref \<Rightarrow> 'c \<Rightarrow> 'p scxml_event
    \<Rightarrow> ('c, 'p, 'x) action \<Rightarrow> error + ('c, 'p, 'x) action list" where
  "resolveAction env m this updatedContext ev actionObject =
     (if a_type actionObject = actionTypes_raise env then Inr [resolveRaise env actionObject]
      else if a_type actionObject = actionTypes_send env then
        Inr [resolveSend env m actionObject updatedContext ev]
      else if a_type actionObject = actionTypes_log env then
        Inr [resolveLog env actionObject updatedContext ev]
      else if a_type actionObject = actionTypes_pure env then
        (case a_get actionObject of
           None \<Rightarrow> Inl TypeError
         | Some get \<Rightarrow> Inr (get updatedContext (ev_data ev)))
      else Inr [toActionObject env m this actionObject])"

definition isRaised :: "('c, 'p, 'x) environment \<Rightarrow> ('c, 'p, 'x) action \<Rightarrow> bool" where
  "isRaised env action =
     (a_type action = actionTypes_raise env
      \<or> (a_type action = actionTypes_send env
          \<and> a_to action = Some (SpecialTargets_Internal env)))"

text \<open>The invoke actions among the resolved actions and the children they create.\<close>

fun invokeLoop ::
  "('c, 'p, 'x) environment \<Rightarrow> (string \<rightharpoonup> 'x) \<Rightarrow> ('c, 'p, 'x) action list
    \<Rightarrow> error + (string \<rightharpoonup> 'x)" where
  "invokeLoop env acc [] = Inr acc"
| "invokeLoop env acc (action # rest) =
     (if a_type action = actionTypes_start env then
        (case a_activity action of
           None \<Rightarrow> Inl TypeError
         | Some ad \<Rightarrow>
             if ad_type ad = actionTypes_invoke env
             then invokeLoop env (acc(ad_id ad \<mapsto> createInvocableActor env ad)) rest
             else invokeLoop env acc rest)
      else invokeLoop env acc rest)"

text \<open>
  \<^verbatim>\<open>resolveRaisedTransition\<close>. \<open>transition_fn\<close> is the method \<^verbatim>\<open>this.transition\<close>, called
  with a state and an event.
\<close>

type_synonym ('c, 'p, 'x) transition_fn =
  "('c, 'p, 'x) state \<Rightarrow> 'p event_input \<Rightarrow> error + ('c, 'p, 'x) state"

definition resolveRaisedTransition ::
  "('c, 'p, 'x) transition_fn \<Rightarrow> ('c, 'p, 'x) state \<Rightarrow> 'p event_input \<Rightarrow> 'p scxml_event
    \<Rightarrow> error + ('c, 'p, 'x) state" where
  "resolveRaisedTransition transition_fn state ev originalEvent =
     (let currentActions = st_actions state
      in case transition_fn state ev of
           Inl e \<Rightarrow> Inl e
         | Inr state' \<Rightarrow>
             Inr (state'\<lparr>st_scxml_event := originalEvent,
                         st_event := ev_data originalEvent,
                         st_actions := currentActions @ st_actions state'\<rparr>))"

text \<open>The loop \<^verbatim>\<open>while (raisedEvents.length)\<close>.\<close>

fun raisedLoop ::
  "('c, 'p, 'x) transition_fn \<Rightarrow> ('c, 'p, 'x) action list \<Rightarrow> ('c, 'p, 'x) state
    \<Rightarrow> 'p scxml_event \<Rightarrow> error + ('c, 'p, 'x) state" where
  "raisedLoop transition_fn [] maybeNextState ev = Inr maybeNextState"
| "raisedLoop transition_fn (raisedEvent # rest) maybeNextState ev =
     (case a_event raisedEvent of
        None \<Rightarrow> Inl TypeError
      | Some raised \<Rightarrow>
          (case resolveRaisedTransition transition_fn maybeNextState (SCXMLEvent raised) ev of
             Inl e \<Rightarrow> Inl e
           | Inr next_state \<Rightarrow> raisedLoop transition_fn rest next_state ev))"

text \<open>
  \<^verbatim>\<open>stateValuesEqual\<close> of \<^verbatim>\<open>State.ts\<close>, for two state values. The keys of an object are
  distinct, so \<^verbatim>\<open>a[key]\<close> is the value listed with the key. The first test \<^verbatim>\<open>a === b\<close>
  answers true for one and the same object, for which the comparison of the keys answers
  true as well (lemma \<open>stateValuesEqual_refl\<close>).
\<close>

fun stateValuesEqual :: "state_value \<Rightarrow> state_value \<Rightarrow> bool" where
  "stateValuesEqual (SVString a) (SVString b) = (a = b)"
| "stateValuesEqual (SVString a) (SVMap b) = False"
| "stateValuesEqual (SVMap a) (SVString b) = False"
| "stateValuesEqual (SVMap a) (SVMap b) =
     (length (map fst a) = length (map fst b)
      \<and> list_all (\<lambda>(key, av).
                    case map_of b key of None \<Rightarrow> False | Some bv \<Rightarrow> stateValuesEqual av bv)
           a)"

text \<open>\<^verbatim>\<open>typeof\<close> of a state value: \<open>True\<close> for a string, \<open>False\<close> for an object.\<close>

fun isString :: "state_value \<Rightarrow> bool" where
  "isString (SVString s) = True"
| "isString (SVMap kvs) = False"

text \<open>
  The first part of \<^verbatim>\<open>resolveTransition\<close>, up to the assignment of
  \<^verbatim>\<open>nextState.changed\<close>. Its result holds the local variables the rest of the function
  reads.
\<close>

record ('c, 'p, 'x) resolved_step =
  rs_nextState :: "('c, 'p, 'x) state"
  rs_resolvedStateValue :: "state_value option"
  rs_stateNodes :: "node_ref list"
  rs_actions :: "('c, 'p, 'x) action list"
  rs_assignActions :: "('c, 'p, 'x) action list"
  rs_resolvedActions :: "('c, 'p, 'x) action list"
  rs_raisedEvents :: "('c, 'p, 'x) action list"

definition resolveStep ::
  "('c, 'p, 'x) environment \<Rightarrow> ('c, 'p, 'x) machine \<Rightarrow> nat \<Rightarrow> node_ref
    \<Rightarrow> ('c, 'p, 'x) state_transition \<Rightarrow> ('c, 'p, 'x) state option \<Rightarrow> 'p scxml_event \<Rightarrow> 'c
    \<Rightarrow> error + ('c, 'p, 'x) resolved_step" where
  "resolveStep env m fuel this stateTransition currentState ev context0 =
     (let configuration = tr_configuration stateTransition;
          willTransition = (currentState = None \<or> tr_transitions stateTransition \<noteq> []);
          resolvedStateValue =
            (if willTransition \<and> truthyValue (getValue env m configuration)
             then Some (getValue env m configuration) else None);
          historyValue0 =
            (case currentState of
               None \<Rightarrow> None
             | Some cs \<Rightarrow>
                 (case st_historyValue cs of
                    Some hv \<Rightarrow> Some hv
                  | None \<Rightarrow>
                      if tr_source stateTransition \<noteq> None then historyValue env m (st_value cs)
                      else None));
          currentContext = (case currentState of None \<Rightarrow> context0 | Some cs \<Rightarrow> st_context cs)
      in case getActions env m fuel this stateTransition currentContext ev currentState of
           Inl e \<Rightarrow> Inl e
         | Inr acts \<Rightarrow>
         (case activitiesLoop env
                 (case currentState of None \<Rightarrow> Map.empty | Some cs \<Rightarrow> st_activities cs) acts of
            Inl e \<Rightarrow> Inl e
          | Inr activityMap \<Rightarrow>
          (let assignActions = fst (partition (\<lambda>a. a_type a = actionTypes_assign env) acts);
               otherActions = snd (partition (\<lambda>a. a_type a = actionTypes_assign env) acts);
               updatedContext =
                 (if assignActions \<noteq> []
                  then updateContext env currentContext ev assignActions currentState
                  else currentContext)
           in case mapE (resolveAction env m this updatedContext ev) otherActions of
                Inl e \<Rightarrow> Inl e
              | Inr resolved \<Rightarrow>
              (let resolvedActions = concat resolved;
                   raisedEvents = fst (partition (isRaised env) resolvedActions);
                   nonRaisedActions = snd (partition (isRaised env) resolvedActions)
               in case invokeLoop env
                         (case currentState of None \<Rightarrow> Map.empty | Some cs \<Rightarrow> st_children cs)
                         resolvedActions of
                    Inl e \<Rightarrow> Inl e
                  | Inr children \<Rightarrow>
                  (case (case resolvedStateValue of
                           None \<Rightarrow> Inr []
                         | Some v \<Rightarrow> getStateNodes env m fuel this v) of
                     Inl e \<Rightarrow> Inl e
                   | Inr stateNodes \<Rightarrow>
                   (case (case resolvedStateValue of
                            Some v \<Rightarrow> Inr v
                          | None \<Rightarrow>
                              (case currentState of
                                 None \<Rightarrow> Inl TypeError
                               | Some cs \<Rightarrow> Inr (st_value cs))) of
                      Inl e \<Rightarrow> Inl e
                    | Inr nextValue \<Rightarrow>
                    (let metaMap =
                           foldl (\<lambda>acc stateNode.
                                    case node_meta m stateNode of
                                      None \<Rightarrow> acc
                                    | Some mt \<Rightarrow> acc(node_id m stateNode \<mapsto> mt))
                             Map.empty (this # stateNodes);
                         nextState = newState
                           \<lparr>sc_value = nextValue,
                            sc_context = updatedContext,
                            sc_event = ev,
                            sc_historyValue =
                              (case resolvedStateValue of
                                 Some v \<Rightarrow>
                                   (case historyValue0 of
                                      None \<Rightarrow> None
                                    | Some hv \<Rightarrow> Some (updateHistoryValue env hv v))
                               | None \<Rightarrow>
                                   (case currentState of
                                      None \<Rightarrow> None
                                    | Some cs \<Rightarrow> st_historyValue cs)),
                            sc_history =
                              (if resolvedStateValue = None \<or> tr_source stateTransition \<noteq> None
                               then map_option snapshot currentState else None),
                            sc_actions =
                              Some (if resolvedStateValue = None then [] else nonRaisedActions),
                            sc_activities =
                              Some (if resolvedStateValue \<noteq> None then activityMap
                                    else (case currentState of
                                            None \<Rightarrow> Map.empty
                                          | Some cs \<Rightarrow> st_activities cs)),
                            sc_meta =
                              (if resolvedStateValue \<noteq> None then Some metaMap
                               else map_option st_meta currentState),
                            sc_events = Some [],
                            sc_configuration =
                              (if resolvedStateValue \<noteq> None then tr_configuration stateTransition
                               else (case currentState of
                                       None \<Rightarrow> []
                                     | Some cs \<Rightarrow> st_configuration cs)),
                            sc_transitions = tr_transitions stateTransition,
                            sc_children = children\<rparr>
                     in Inr \<lparr>rs_nextState =
                               nextState\<lparr>st_changed :=
                                 Some (ev_name ev = actionTypes_update env \<or> assignActions \<noteq> [])\<rparr>,
                             rs_resolvedStateValue = resolvedStateValue,
                             rs_stateNodes = stateNodes,
                             rs_actions = acts,
                             rs_assignActions = assignActions,
                             rs_resolvedActions = resolvedActions,
                             rs_raisedEvents = raisedEvents\<rparr>)))))))"

text \<open>
  The value of \<^verbatim>\<open>changed\<close> at the end of \<^verbatim>\<open>resolveTransition\<close>:
  \<^verbatim>\<open>maybeNextState.changed || (history ? ... : undefined)\<close>.
\<close>

definition detectChanged ::
  "('c, 'p, 'x) state \<Rightarrow> ('c, 'p, 'x) state_snapshot option \<Rightarrow> ('c, 'p, 'x) action list
    \<Rightarrow> bool option" where
  "detectChanged maybeNextState hist assignActions =
     (if st_changed maybeNextState = Some True then Some True
      else
        (case hist of
           None \<Rightarrow> None
         | Some h \<Rightarrow>
             Some (st_actions maybeNextState \<noteq> []
                   \<or> assignActions \<noteq> []
                   \<or> isString (st_value h) \<noteq> isString (st_value maybeNextState)
                   \<or> \<not> stateValuesEqual (st_value maybeNextState) (st_value h))))"

text \<open>
  \<^verbatim>\<open>resolveTransition\<close>. The event of a transient step is the null event object
  \<^verbatim>\<open>{ type: actionTypes.nullEvent }\<close>.
\<close>

definition resolveTransition ::
  "('c, 'p, 'x) environment \<Rightarrow> ('c, 'p, 'x) machine \<Rightarrow> nat \<Rightarrow> node_ref
    \<Rightarrow> ('c, 'p, 'x) transition_fn
    \<Rightarrow> ('c, 'p, 'x) state_transition \<Rightarrow> ('c, 'p, 'x) state option \<Rightarrow> 'p scxml_event \<Rightarrow> 'c
    \<Rightarrow> error + ('c, 'p, 'x) state" where
  "resolveTransition env m fuel this transition_fn stateTransition currentState ev context0 =
     (case resolveStep env m fuel this stateTransition currentState ev context0 of
        Inl e \<Rightarrow> Inl e
      | Inr step \<Rightarrow>
          (let nextState = rs_nextState step;
               hist = st_history nextState
           in if rs_resolvedStateValue step = None then Inr nextState
              else
                (case (if (\<exists>stateNode \<in> set (rs_stateNodes step). transient m stateNode)
                       then resolveRaisedTransition transition_fn nextState
                              (PlainEvent (EventObject
                                 \<lparr>etype = actionTypes_nullEvent env, payload = []\<rparr>)) ev
                       else Inr nextState) of
                   Inl e \<Rightarrow> Inl e
                 | Inr afterTransient \<Rightarrow>
                     (case raisedLoop transition_fn (rs_raisedEvents step) afterTransient ev of
                        Inl e \<Rightarrow> Inl e
                      | Inr maybeNextState \<Rightarrow>
                          Inr (maybeNextState
                                \<lparr>st_changed :=
                                   detectChanged maybeNextState hist (rs_assignActions step),
                                 st_historyValue := st_historyValue nextState,
                                 st_history := hist\<rparr>)))))"

subsection \<open>The events of a machine and the transition function\<close>

definition ownEvents :: "('c, 'p, 'x) state_node \<Rightarrow> string list" where
  "ownEvents n =
     setOf (map td_eventType
              (filter (\<lambda>transition.
                         \<not> (td_target transition = None \<and> td_actions transition = []
                            \<and> td_internal transition))
                 (sn_transitions n)))"

fun events :: "('c, 'p, 'x) state_node \<Rightarrow> string list" where
  "events (StateNode k i t dl ini en ex ac st tr ts mt dt cs) =
     setOf (ownEvents (StateNode k i t dl ini en ex ac st tr ts mt dt cs)
            @ concat (map (\<lambda>(key, child). events child) cs))"

definition eventsOf :: "('c, 'p, 'x) machine \<Rightarrow> node_ref \<Rightarrow> string list" where
  "eventsOf m r = (case nodeAt m r of None \<Rightarrow> [] | Some n \<Rightarrow> events n)"

definition strict :: "('c, 'p, 'x) machine \<Rightarrow> node_ref \<Rightarrow> bool" where
  "strict m r = (case nodeAt m r of None \<Rightarrow> False | Some n \<Rightarrow> sn_strict n)"

text \<open>
  \<^verbatim>\<open>transition(state, event)\<close> for a \<^verbatim>\<open>State\<close> instance and no \<^verbatim>\<open>context\<close> argument, so
  that \<^verbatim>\<open>currentState\<close> is the state itself. A raised event or a transient node makes
  \<^verbatim>\<open>resolveTransition\<close> call \<^verbatim>\<open>transition\<close> again, which need not end (a state can raise
  the event that enters it): the first argument after the machine bounds the depth of
  these calls, and \<open>OutOfFuel\<close> is the answer when the bound is reached.
\<close>

fun transition ::
  "('c, 'p, 'x) environment \<Rightarrow> ('c, 'p, 'x) machine \<Rightarrow> nat \<Rightarrow> node_ref
    \<Rightarrow> ('c, 'p, 'x) state \<Rightarrow> 'p event_input \<Rightarrow> error + ('c, 'p, 'x) state" where
  "transition env m 0 this state event = Inl OutOfFuel"
| "transition env m (Suc fuel) this state event =
     (let ev = toSCXMLEvent env event;
          currentState = state
      in if \<not> IS_PRODUCTION env \<and> ev_name ev = WILDCARD then Inl WildcardEvent
         else if strict m this \<and> \<not> has (eventsOf m this) (ev_name ev)
                 \<and> \<not> isBuiltInEvent env (ev_name ev)
         then Inl (UnknownEvent (node_id m this) (ev_name ev))
         else
           (case private_transition env m this (st_value currentState) currentState ev of
              Inl e \<Rightarrow> Inl e
            | Inr selected \<Rightarrow>
                (let stateTransition =
                       (case selected of
                          Some t \<Rightarrow> t
                        | None \<Rightarrow>
                            \<lparr>tr_transitions = [], tr_entrySet = [], tr_exitSet = [],
                             tr_configuration = [], tr_source = Some currentState,
                             tr_actions = []\<rparr>)
                 in case getStateNodes env m (Suc fuel) this (st_value currentState) of
                      Inl e \<Rightarrow> Inl e
                    | Inr nodes \<Rightarrow>
                        (let prevConfig = getConfiguration env m [] nodes;
                             resolvedConfig =
                               (if tr_configuration stateTransition \<noteq> []
                                then getConfiguration env m prevConfig
                                       (tr_configuration stateTransition)
                                else prevConfig)
                         in resolveTransition env m (Suc fuel) this
                              (\<lambda>s e. transition env m fuel this s e)
                              (stateTransition\<lparr>tr_configuration := resolvedConfig\<rparr>)
                              (Some currentState) ev (m_context m)))))"

subsection \<open>State.from\<close>





section \<open>A reference environment\<close>

text \<open>
  The theorems below hold for every environment. Their instances at concrete machines
  need one: this section gives each helper a definition.

  Modelled from the spec: the helpers of \<^verbatim>\<open>utils.ts\<close>, \<^verbatim>\<open>stateUtils.ts\<close> and
  \<^verbatim>\<open>actions.ts\<close>, which are not part of the sources. Events are wrapped as
  \<^verbatim>\<open>{ name, data }\<close>; the built-in event names are those listed under the external
  interfaces; \<open>getConfiguration\<close> extends the given nodes with all required ancestors and
  with the previously active or else initial descendants, the regions of a parallel node
  in document order; \<open>getValue\<close> reads the state value off a configuration; a compound
  node is in its final state when its active child is final and a parallel node when
  every region is; the assign actions are folded into the context in list order; the
  action types are the names of the \<^verbatim>\<open>ActionTypes\<close> enumeration. In this environment the
  property \<open>a_rest\<close> of an action is its assigner, if it has one, and a raise action
  carries its event in \<open>a_event\<close> from the start. State values are taken as they are
  (no key contains the delimiter), and history is kept shallow.
\<close>

definition ref_toSCXMLEvent :: "'p event_input \<Rightarrow> 'p scxml_event" where
  "ref_toSCXMLEvent e =
     (case e of
        PlainEvent (EventName s) \<Rightarrow> \<lparr>ev_name = s, ev_data = \<lparr>etype = s, payload = []\<rparr>\<rparr>
      | PlainEvent (EventObject obj) \<Rightarrow> \<lparr>ev_name = etype obj, ev_data = obj\<rparr>
      | SCXMLEvent ev \<Rightarrow> ev)"

definition startsWith :: "string \<Rightarrow> string \<Rightarrow> bool" where
  "startsWith str pre = (take (length pre) str = pre)"

definition ref_isBuiltInEvent :: "string \<Rightarrow> bool" where
  "ref_isBuiltInEvent eventName =
     (eventName = ''xstate.init'' \<or> startsWith eventName ''xstate.after(''
      \<or> startsWith eventName ''done.state.'' \<or> startsWith eventName ''done.invoke.''
      \<or> startsWith eventName ''error.platform.'')"

fun ref_pathToStateValue :: "string list \<Rightarrow> state_value" where
  "ref_pathToStateValue [] = SVMap []"
| "ref_pathToStateValue [k] = SVString k"
| "ref_pathToStateValue (k # ks) = SVMap [(k, ref_pathToStateValue ks)]"

fun ref_matchesState :: "state_value \<Rightarrow> state_value \<Rightarrow> bool" where
  "ref_matchesState (SVString p) (SVString c) = (p = c)"
| "ref_matchesState (SVMap p) (SVString c) = False"
| "ref_matchesState (SVString p) (SVMap c) = (p \<in> fst ` set c)"
| "ref_matchesState (SVMap p) (SVMap c) =
     list_all (\<lambda>(key, pv). case map_of c key of None \<Rightarrow> False | Some cv \<Rightarrow> ref_matchesState pv cv) p"

fun ref_path :: "string list \<Rightarrow> state_value \<Rightarrow> state_value" where
  "ref_path [] v = v"
| "ref_path (k # ks) (SVString s) = SVString s"
| "ref_path (k # ks) (SVMap kvs) =
     (case map_of kvs k of None \<Rightarrow> SVMap [] | Some v \<Rightarrow> ref_path ks v)"

definition isLeafNode :: "('c, 'p, 'x) state_node \<Rightarrow> bool" where
  "isLeafNode n = (sn_type n = Atomic \<or> sn_type n = Final)"

definition isPrefix :: "node_ref \<Rightarrow> node_ref \<Rightarrow> bool" where
  "isPrefix r t = (take (length r) t = r)"

text \<open>
  The active nodes below and including a node, in document order: a node is active when
  it is forced (chosen by its parent) or lies on the path to a given node; an active
  compound node without such a child forces its previously active children or else its
  initial child; an active parallel node forces every child that is no history node.
\<close>

fun activeNodes ::
  "('c, 'p, 'x) state_node \<Rightarrow> node_ref \<Rightarrow> node_ref list \<Rightarrow> node_ref list \<Rightarrow> bool
    \<Rightarrow> node_ref list" where
  "activeNodes (StateNode k i t dl ini en ex ac st tr ts mt dt cs) r nodes prev forced =
     (if \<not> forced \<and> \<not> list_ex (isPrefix r) nodes then []
      else
        r # concat (map (\<lambda>(key, child).
                           activeNodes child (r @ [key]) nodes prev
                             (if t = Parallel then sn_type child \<noteq> History
                              else if t = Compound
                                      \<and> \<not> list_ex (\<lambda>kc. list_ex (isPrefix (r @ [fst kc])) nodes) cs
                              then (if list_ex (\<lambda>kc. has prev (r @ [fst kc])) cs
                                    then has prev (r @ [key])
                                    else ini = Some key)
                              else False))
                     cs))"

definition ref_getConfiguration ::
  "('c, 'p, 'x) machine \<Rightarrow> node_ref list \<Rightarrow> node_ref list \<Rightarrow> node_ref list" where
  "ref_getConfiguration m prevStateNodes stateNodes =
     activeNodes (m_root m) [] stateNodes prevStateNodes False"

fun valueFrom :: "('c, 'p, 'x) state_node \<Rightarrow> node_ref \<Rightarrow> node_ref list \<Rightarrow> state_value" where
  "valueFrom (StateNode k i t dl ini en ex ac st tr ts mt dt cs) r config =
     (case filter (\<lambda>kc. has config (r @ [fst kc])) cs of
        [] \<Rightarrow> SVMap []
      | (key, child) # others \<Rightarrow>
          if t = Compound \<and> isLeafNode child then SVString key
          else SVMap (concat (map (\<lambda>(key, child).
                                     if has config (r @ [key])
                                     then [(key, valueFrom child (r @ [key]) config)] else [])
                               cs)))"

definition ref_getValue :: "('c, 'p, 'x) machine \<Rightarrow> node_ref list \<Rightarrow> state_value" where
  "ref_getValue m configuration =
     valueFrom (m_root m) [] (ref_getConfiguration m [[]] configuration)"

fun inFinalState :: "('c, 'p, 'x) state_node \<Rightarrow> node_ref \<Rightarrow> node_ref list \<Rightarrow> bool" where
  "inFinalState (StateNode k i t dl ini en ex ac st tr ts mt dt cs) r config =
     (if t = Compound then list_ex (\<lambda>kc. sn_type (snd kc) = Final \<and> has config (r @ [fst kc])) cs
      else if t = Parallel
      then list_all (\<lambda>(key, child). inFinalState child (r @ [key]) config) cs
      else False)"

definition ref_isInFinalState ::
  "('c, 'p, 'x) machine \<Rightarrow> node_ref list \<Rightarrow> node_ref \<Rightarrow> bool" where
  "ref_isInFinalState m configuration r =
     (case nodeAt m r of None \<Rightarrow> False | Some n \<Rightarrow> inFinalState n r configuration)"

fun initialStateNodes :: "('c, 'p, 'x) state_node \<Rightarrow> node_ref \<Rightarrow> node_ref list" where
  "initialStateNodes (StateNode k i t dl ini en ex ac st tr ts mt dt cs) r =
     (if t = Parallel
      then concat (map (\<lambda>(key, child).
                          if sn_type child = History then []
                          else initialStateNodes child (r @ [key])) cs)
      else if t = Compound \<and> ini \<noteq> None
      then concat (map (\<lambda>(key, child).
                          if ini = Some key then initialStateNodes child (r @ [key]) else []) cs)
      else [r])"

definition ref_getRelativeStateNodes ::
  "('c, 'p, 'x) machine \<Rightarrow> node_ref \<Rightarrow> history_value option \<Rightarrow> error + node_ref list" where
  "ref_getRelativeStateNodes m r hv =
     (case nodeAt m r of
        None \<Rightarrow> Inl TypeError
      | Some n \<Rightarrow>
          if sn_type n = History then
            (case nodeAt m (butlast r) of
               None \<Rightarrow> Inl TypeError
             | Some p \<Rightarrow> Inr (initialStateNodes p (butlast r)))
          else Inr (initialStateNodes n r))"

definition ref_historyValue :: "('c, 'p, 'x) machine \<Rightarrow> state_value \<Rightarrow> history_value option" where
  "ref_historyValue m v =
     (if sn_states (m_root m) = [] then None else Some (HistoryValue (Some v) []))"

definition ref_updateHistoryValue :: "history_value \<Rightarrow> state_value \<Rightarrow> history_value" where
  "ref_updateHistoryValue hv v = HistoryValue (Some v) (hv_states hv)"

type_synonym ('c, 'p) assigner = "('c \<Rightarrow> 'p event_object \<Rightarrow> 'c) option"

definition ref_updateContext ::
  "'c \<Rightarrow> 'p scxml_event \<Rightarrow> ('c, 'p, ('c, 'p) assigner) action list
    \<Rightarrow> ('c, 'p, ('c, 'p) assigner) state option \<Rightarrow> 'c" where
  "ref_updateContext c ev assignActions state =
     foldl (\<lambda>acc assignAction.
              case a_rest assignAction of None \<Rightarrow> acc | Some f \<Rightarrow> f acc (ev_data ev))
       c assignActions"

definition refEnv :: "('c, 'p, ('c, 'p) assigner) environment" where
  "refEnv =
     \<lparr>IS_PRODUCTION = False,
      actionTypes_start = ''xstate.start'',
      actionTypes_stop = ''xstate.stop'',
      actionTypes_raise = ''xstate.raise'',
      actionTypes_send = ''xstate.send'',
      actionTypes_log = ''xstate.log'',
      actionTypes_assign = ''xstate.assign'',
      actionTypes_pure = ''xstate.pure'',
      actionTypes_invoke = ''xstate.invoke'',
      actionTypes_nullEvent = [],
      actionTypes_update = ''xstate.update'',
      SpecialTargets_Internal = ''#_internal'',
      toSCXMLEvent = ref_toSCXMLEvent,
      isBuiltInEvent = ref_isBuiltInEvent,
      toStateValue = (\<lambda>v d. v),
      pathToStateValue = ref_pathToStateValue,
      matchesState = ref_matchesState,
      path = ref_path,
      getConfiguration = ref_getConfiguration,
      getValue = ref_getValue,
      isInFinalState = ref_isInFinalState,
      getRelativeStateNodes = ref_getRelativeStateNodes,
      historyValue = ref_historyValue,
      updateHistoryValue = ref_updateHistoryValue,
      doneState = (\<lambda>ident d. \<lparr>etype = ''done.state.'' @ ident, payload = []\<rparr>),
      mapContext = (\<lambda>d c ev. d),
      raise = (\<lambda>e. Action ''xstate.raise'' None (Some \<lparr>ev_name = etype e, ev_data = e\<rparr>)
                     None None None),
      start = (\<lambda>ad. Action ''xstate.start'' (Some ad) None None None None),
      stop = (\<lambda>ad. Action ''xstate.stop'' (Some ad) None None None None),
      toActionObjects = (\<lambda>m acts. acts),
      toActionObject = (\<lambda>m r a. a),
      updateContext = ref_updateContext,
      resolveRaise = (\<lambda>a. a),
      resolveSend = (\<lambda>m a c ev. a),
      resolveLog = (\<lambda>a c ev. a),
      createInvocableActor = (\<lambda>ad. None),
      initEvent = \<lparr>ev_name = ''xstate.init'', ev_data = \<lparr>etype = ''xstate.init'', payload = []\<rparr>\<rparr>\<rparr>"

section \<open>Example machines\<close>

text \<open>
  The concrete configurations, machines and states at which the theorems of the next
  section are instantiated.
\<close>

definition custom :: "string \<Rightarrow> ('c, 'p, ('c, 'p) assigner) action" where
  "custom t = Action t None None None None None"

definition leafNode ::
  "string \<Rightarrow> string \<Rightarrow> node_type \<Rightarrow> ('c, 'p, 'x) action list \<Rightarrow> ('c, 'p, 'x) action list
    \<Rightarrow> ('c, 'p, 'x) transition_definition list \<Rightarrow> ('c, 'p, 'x) state_node" where
  "leafNode k i t en ex ts =
     StateNode k i t ''.'' None en ex [] False
       (list_ex (\<lambda>t. td_eventType t = NULL_EVENT) ts) ts None None []"

definition goto ::
  "node_ref \<Rightarrow> string \<Rightarrow> node_ref \<Rightarrow> ('c, 'p, 'x) action list
    \<Rightarrow> ('c, 'p, 'x) transition_definition" where
  "goto src e tgt acts =
     \<lparr>td_eventType = e, td_target = Some [tgt], td_source = src, td_internal = False,
      td_actions = acts, td_cond = None, td_in = None\<rparr>"

definition stateAt :: "state_value \<Rightarrow> 'c \<Rightarrow> ('c, 'p, 'x) state" where
  "stateAt v c =
     newState
       \<lparr>sc_value = v, sc_context = c,
        sc_event = \<lparr>ev_name = ''xstate.init'',
                    ev_data = \<lparr>etype = ''xstate.init'', payload = []\<rparr>\<rparr>,
        sc_historyValue = None, sc_history = None, sc_actions = None, sc_activities = None,
        sc_meta = None, sc_events = None, sc_configuration = [], sc_transitions = [],
        sc_children = Map.empty\<rparr>"


definition forbiddenConfig :: "(nat, unit, unit) fsm_config" where
  "forbiddenConfig =
     \<lparr>fsm_id = None, fsm_initial = ''idle'', fsm_context = Map.empty,
      fsm_states =
        [''idle'' \<mapsto> \<lparr>on = Some [''FOO'' \<mapsto> Undefined,
                                 ''GO'' \<mapsto> Single (TransitionTarget ''busy'')],
                      entry = Undefined, exit = Single (NamedAction ''leave'')\<rparr>,
         ''busy'' \<mapsto> \<lparr>on = None, entry = Undefined, exit = Undefined\<rparr>]\<rparr>"

text \<open>
  A flat machine with assign actions: starting sets \<^verbatim>\<open>count\<close> to 1 and entering
  \<^verbatim>\<open>running\<close> multiplies it by ten; \<^verbatim>\<open>INC\<close> has no target.
\<close>

definition startTransition :: "(nat, unit, unit) transition_config" where
  "startTransition =
     TransitionObject (Some ''running'')
       (Array [Some (ObjectAction (assign (PropertyAssigner [(''count'', PropertyValue 1)]))),
               Some (NamedAction ''notify'')])
       None"

definition idleConfig :: "(nat, unit, unit) state_config" where
  "idleConfig =
     \<lparr>on = Some [''START'' \<mapsto> Single startTransition],
      entry = Undefined, exit = Single (NamedAction ''leave_idle'')\<rparr>"

definition incTransition :: "(nat, unit, unit) transition_config" where
  "incTransition =
     TransitionObject None
       (Single (ObjectAction
          (assign (Assigner (\<lambda>c e. c(''count'' \<mapsto>
                     (case c ''count'' of None \<Rightarrow> 0 | Some n \<Rightarrow> n + 1)))))))
       None"

definition runningConfig :: "(nat, unit, unit) state_config" where
  "runningConfig =
     \<lparr>on = Some [''INC'' \<mapsto> Single incTransition],
      entry = Array [Some (ObjectAction
                       (assign (PropertyAssigner
                          [(''count'', PropertyFunction
                              (\<lambda>c e. case c ''count'' of None \<Rightarrow> 0 | Some n \<Rightarrow> n * 10))]))),
                     Some (NamedAction ''enter_running'')],
      exit = Undefined\<rparr>"

definition counterConfig :: "(nat, unit, unit) fsm_config" where
  "counterConfig =
     \<lparr>fsm_id = Some ''counter'', fsm_initial = ''idle'', fsm_context = [''count'' \<mapsto> 0],
      fsm_states = [''idle'' \<mapsto> idleConfig, ''running'' \<mapsto> runningConfig]\<rparr>"

definition runningAt :: "nat \<Rightarrow> (nat, unit, unit) fsm_state" where
  "runningAt n =
     \<lparr>fsm_value = ''running'', fsm_ctx = [''count'' \<mapsto> n], fsm_actions = [],
      fsm_changed = None, fsm_matches = createMatcher ''running''\<rparr>"




definition raiseNext :: "('c, unit, ('c, unit) assigner) action" where
  "raiseNext =
     Action ''xstate.raise'' None
       (Some \<lparr>ev_name = ''NEXT'', ev_data = \<lparr>etype = ''NEXT'', payload = []\<rparr>\<rparr>) None None None"

definition raiseMachine :: "(nat, unit, (nat, unit) assigner) machine" where
  "raiseMachine =
     \<lparr>m_root = StateNode ''m'' ''m'' Compound ''.'' (Some ''a'') [] [] [] False False [] None None
        [(''a'', leafNode ''a'' ''m.a'' Atomic [] [custom ''exit_a'']
                   [goto [''a''] ''GO'' [''b''] [raiseNext]]),
         (''b'', leafNode ''b'' ''m.b'' Atomic [custom ''enter_b''] []
                   [goto [''b''] ''NEXT'' [''c''] []]),
         (''c'', leafNode ''c'' ''m.c'' Atomic [custom ''enter_c''] []
                   [goto [''c''] NULL_EVENT [''d''] []]),
         (''d'', leafNode ''d'' ''m.d'' Atomic [custom ''enter_d''] [] [])],
      m_guards = Map.empty, m_context = 0\<rparr>"

definition pedestrianStates :: "(string \<times> (nat, unit, (nat, unit) assigner) state_node) list" where
  "pedestrianStates =
     [(''walk'', leafNode ''walk'' ''light.red.walk'' Atomic [custom ''enter_walk'']
                   [custom ''exit_walk'']
                   [goto [''red'', ''walk''] ''PED_COUNTDOWN'' [''red'', ''wait''] []]),
      (''wait'', StateNode ''wait'' ''light.red.wait'' Atomic ''.'' None
                   [custom ''enter_wait''] [custom ''exit_wait'']
                   [\<lparr>ad_type = ''blink'', ad_id = ''blink''\<rparr>] False False
                   [goto [''red'', ''wait''] ''PED_COUNTDOWN'' [''red'', ''stop''] []]
                   None None []),
      (''stop'', leafNode ''stop'' ''light.red.stop'' Final [custom ''enter_stop'']
                   [custom ''exit_stop''] [])]"

definition lightMachine :: "(nat, unit, (nat, unit) assigner) machine" where
  "lightMachine =
     \<lparr>m_root = StateNode ''light'' ''light'' Compound ''.'' (Some ''green'') [] [] [] True False []
        None None
        [(''green'', leafNode ''green'' ''light.green'' Atomic [custom ''enter_green'']
                       [custom ''exit_green'']
                       [goto [''green''] ''TIMER'' [''yellow''] [],
                        goto [''green''] ''POWER_OUTAGE'' [''red''] [],
                        goto [''green''] ''NOTHING'' [''green''] []]),
         (''yellow'', leafNode ''yellow'' ''light.yellow'' Atomic [custom ''enter_yellow'']
                        [custom ''exit_yellow'']
                        [goto [''yellow''] ''TIMER'' [''red''] [],
                         goto [''yellow''] ''POWER_OUTAGE'' [''red''] []]),
         (''red'', StateNode ''red'' ''light.red'' Compound ''.'' (Some ''walk'')
                     [custom ''enter_red''] [custom ''exit_red''] [] False False
                     [goto [''red''] ''TIMER'' [''green''] [],
                      goto [''red''] ''POWER_OUTAGE'' [''red''] [],
                      goto [''red''] ''NOTHING'' [''red''] []]
                     None None pedestrianStates)],
      m_guards = Map.empty, m_context = 0\<rparr>"

definition outageEvent :: "unit scxml_event" where
  "outageEvent =
     \<lparr>ev_name = ''POWER_OUTAGE'', ev_data = \<lparr>etype = ''POWER_OUTAGE'', payload = []\<rparr>\<rparr>"

definition countdownEvent :: "unit scxml_event" where
  "countdownEvent =
     \<lparr>ev_name = ''PED_COUNTDOWN'', ev_data = \<lparr>etype = ''PED_COUNTDOWN'', payload = []\<rparr>\<rparr>"

definition walking :: "(nat, unit, (nat, unit) assigner) state" where
  "walking = stateAt (SVMap [(''red'', SVString ''walk'')]) 0"

definition waiting :: "(nat, unit, (nat, unit) assigner) state" where
  "waiting = stateAt (SVMap [(''red'', SVString ''wait'')]) 0"

text \<open>
  The state transitions \<^verbatim>\<open>_transition\<close> selects in the light machine for a power
  outage while walking (the external self-transition of \<^verbatim>\<open>red\<close>) and for the countdown
  while waiting (into the final node \<^verbatim>\<open>stop\<close>).
\<close>

definition outageStep :: "(nat, unit, (nat, unit) assigner) state_transition" where
  "outageStep =
     \<lparr>tr_transitions = [goto [''red''] ''POWER_OUTAGE'' [''red''] []],
      tr_entrySet = [[''red'', ''walk''], [''red'']],
      tr_exitSet = [[''red'']],
      tr_configuration = [[''red'', ''walk'']],
      tr_source = Some walking,
      tr_actions = []\<rparr>"

definition countdownStep :: "(nat, unit, (nat, unit) assigner) state_transition" where
  "countdownStep =
     \<lparr>tr_transitions = [goto [''red'', ''wait''] ''PED_COUNTDOWN'' [''red'', ''stop''] []],
      tr_entrySet = [],
      tr_exitSet = [[''red'', ''wait'']],
      tr_configuration = [[''red'', ''stop'']],
      tr_source = Some waiting,
      tr_actions = []\<rparr>"

section \<open>Properties\<close>

subsection \<open>The flat machine\<close>

lemma transitionLoop_select:
  "transitionLoop fsmConfig options stateConfig v c ev ts =
     (case selectTransition c ev ts of
        Selected t \<Rightarrow>
          takeTransition fsmConfig options stateConfig v c ev (targetOf v t) (actionsOf t)
      | _ \<Rightarrow> Inr (createUnchangedState v c))"
proof (induction ts)
  case Nil
  show ?case by simp
next
  case (Cons a ts)
  then show ?case by (cases a) auto
qed

lemma transitionLoop0_select:
  "transitionLoop0 fsmConfig stateConfig v c ev ts =
     (case selectTransition c ev ts of
        Selected t \<Rightarrow>
          takeTransition0 fsmConfig stateConfig v c ev (truthyTarget t) (actionsOf t)
      | _ \<Rightarrow> Inr (createUnchangedState v c))"
proof (induction ts)
  case Nil
  show ?case by (simp add: createUnchangedState_def)
next
  case (Cons a ts)
  then show ?case by (cases a) (auto simp: createUnchangedState_def)
qed

text \<open>
  Claim C7. When the \<^verbatim>\<open>on\<close> configuration of the current state holds an explicit
  \<^verbatim>\<open>undefined\<close> under the event's type, \<^verbatim>\<open>transition\<close> consumes the event: it returns a
  state with the value and the context it was given, no actions, and \<^verbatim>\<open>changed\<close> false.
  Both revisions of the flat machine return the same state.
\<close>

theorem forbidden_transition_consumed:
  assumes "fsm_states fsmConfig (stateValueOf fsmConfig state) = Some stateConfig"
    and "on stateConfig = Some onConfig"
    and "onConfig (etype (toEventObject event)) = Some Undefined"
  shows "\<exists>s'. fsm_transition production fsmConfig options state event = Inr s'
            \<and> fsm_transition0 production fsmConfig state event = Inr s'
            \<and> fsm_value s' = stateValueOf fsmConfig state
            \<and> fsm_ctx s' = stateContextOf fsmConfig state
            \<and> fsm_actions s' = []
            \<and> fsm_changed s' = Some False"
  using assms
  by (simp add: fsm_transition_def fsm_transition0_def onLookup_def createUnchangedState_def
      Let_def)

theorem forbidden_transition_consumed_witness:
  "\<exists>s'. fsm_transition False forbiddenConfig \<lparr>option_actions = None\<rparr>
           (StateName ''idle'') (EventName ''FOO'') = Inr s'
       \<and> fsm_transition0 False forbiddenConfig (StateName ''idle'') (EventName ''FOO'') = Inr s'
       \<and> fsm_value s' = ''idle'' \<and> fsm_ctx s' = Map.empty \<and> fsm_actions s' = []
       \<and> fsm_changed s' = Some False"
  using forbidden_transition_consumed
    [of forbiddenConfig "StateName ''idle''" _ _ "EventName ''FOO''" False
        "\<lparr>option_actions = None\<rparr>"]
  by (simp add: forbiddenConfig_def)

subsection \<open>Candidates\<close>






subsection \<open>State.from\<close>



subsection \<open>The event of the returned state\<close>

lemma resolveStep_event:
  assumes "resolveStep env m fuel this stateTransition currentState ev context0 = Inr step"
  shows "st_scxml_event (rs_nextState step) = ev \<and> st_event (rs_nextState step) = ev_data ev"
  using assms
  by (auto simp: resolveStep_def Let_def newState_def split: sum.splits)

lemma resolveRaisedTransition_event:
  assumes "resolveRaisedTransition transition_fn state ev originalEvent = Inr s'"
  shows "st_scxml_event s' = originalEvent \<and> st_event s' = ev_data originalEvent"
  using assms
  by (auto simp: resolveRaisedTransition_def Let_def split: sum.splits)

lemma raisedLoop_event:
  assumes "raisedLoop transition_fn raised s ev = Inr s'"
    and "st_scxml_event s = ev \<and> st_event s = ev_data ev"
  shows "st_scxml_event s' = ev \<and> st_event s' = ev_data ev"
  using assms
proof (induction raised arbitrary: s)
  case Nil
  then show ?case by simp
next
  case (Cons a raised)
  from Cons.prems(1) obtain re s1 where
    "resolveRaisedTransition transition_fn s (SCXMLEvent re) ev = Inr s1"
    "raisedLoop transition_fn raised s1 ev = Inr s'"
    by (auto split: option.splits sum.splits)
  with Cons.IH resolveRaisedTransition_event show ?case by blast
qed

lemma resolveTransition_event:
  assumes "resolveTransition env m fuel this transition_fn stateTransition currentState ev context0
             = Inr s'"
  shows "st_scxml_event s' = ev \<and> st_event s' = ev_data ev"
proof -
  from assms obtain step where
    step: "resolveStep env m fuel this stateTransition currentState ev context0 = Inr step"
    by (auto simp: resolveTransition_def split: sum.splits)
  note ns = resolveStep_event[OF step]
  show ?thesis
  proof (cases "rs_resolvedStateValue step = None")
    case True
    with assms step ns show ?thesis by (simp add: resolveTransition_def Let_def)
  next
    case False
    with assms step obtain afterTransient maybeNextState where
      at: "(if (\<exists>stateNode \<in> set (rs_stateNodes step). transient m stateNode)
            then resolveRaisedTransition transition_fn (rs_nextState step)
                   (PlainEvent (EventObject \<lparr>etype = actionTypes_nullEvent env, payload = []\<rparr>)) ev
            else Inr (rs_nextState step)) = Inr afterTransient"
      and rl: "raisedLoop transition_fn (rs_raisedEvents step) afterTransient ev = Inr maybeNextState"
      and s': "s' = maybeNextState
                \<lparr>st_changed := detectChanged maybeNextState (st_history (rs_nextState step)) (rs_assignActions step),
                 st_historyValue := st_historyValue (rs_nextState step),
                 st_history := st_history (rs_nextState step)\<rparr>"
      by (auto simp: resolveTransition_def Let_def split: sum.splits)
    have "st_scxml_event afterTransient = ev \<and> st_event afterTransient = ev_data ev"
    proof (cases "\<exists>stateNode \<in> set (rs_stateNodes step). transient m stateNode")
      case True
      with at have "resolveRaisedTransition transition_fn (rs_nextState step)
                      (PlainEvent (EventObject \<lparr>etype = actionTypes_nullEvent env, payload = []\<rparr>)) ev
                    = Inr afterTransient"
        by simp
      then show ?thesis by (rule resolveRaisedTransition_event)
    next
      case False
      with at ns show ?thesis by simp
    qed
    from raisedLoop_event[OF rl this] s' show ?thesis by simp
  qed
qed

text \<open>
  Claim C6. The state \<^verbatim>\<open>transition\<close> returns carries the event it was called with:
  \<^verbatim>\<open>_event\<close> is that event as \<^verbatim>\<open>toSCXMLEvent\<close> wraps it and \<^verbatim>\<open>event\<close> is its data,
  whatever internal events (raised events, null events of transient nodes) were processed
  on the way.
\<close>

theorem returned_state_carries_original_event:
  assumes "transition env m fuel this state event = Inr s'"
  shows "st_scxml_event s' = toSCXMLEvent env event
       \<and> st_event s' = ev_data (toSCXMLEvent env event)"
proof (cases fuel)
  case 0
  with assms show ?thesis by simp
next
  case (Suc n)
  with assms obtain stateTransition where
    "resolveTransition env m (Suc n) this (\<lambda>s e. transition env m n this s e) stateTransition
       (Some state) (toSCXMLEvent env event) (m_context m) = Inr s'"
    by (auto simp: Let_def split: if_splits sum.splits)
  then show ?thesis by (rule resolveTransition_event)
qed

theorem returned_state_carries_original_event_witness:
  "\<not> isl (transition refEnv raiseMachine 3 [] (stateAt (SVString ''a'') 0)
            (PlainEvent (EventName ''GO'')))
   \<and> st_value (projr (transition refEnv raiseMachine 3 [] (stateAt (SVString ''a'') 0)
                        (PlainEvent (EventName ''GO'')))) = SVString ''d''
   \<and> st_event (projr (transition refEnv raiseMachine 3 [] (stateAt (SVString ''a'') 0)
                        (PlainEvent (EventName ''GO'')))) = \<lparr>etype = ''GO'', payload = []\<rparr>"
proof -
  let ?r = "transition refEnv raiseMachine 3 [] (stateAt (SVString ''a'') 0)
              (PlainEvent (EventName ''GO''))"
  have ok: "\<not> isl ?r" by code_simp
  then obtain s' where s': "?r = Inr s'" by (cases ?r) auto
  have v: "st_value (projr ?r) = SVString ''d''" by code_simp
  have e: "ev_data (toSCXMLEvent refEnv (PlainEvent (EventName ''GO'')))
             = (\<lparr>etype = ''GO'', payload = []\<rparr> :: unit event_object)"
    by (simp add: refEnv_def ref_toSCXMLEvent_def)
  from returned_state_carries_original_event[OF s'] e
  have "st_event s' = \<lparr>etype = ''GO'', payload = []\<rparr>" by simp
  with ok v s' show ?thesis by simp
qed

subsection \<open>Strict mode\<close>

text \<open>
  Claim C8. In a strict machine, an event whose name is not among the events of the
  machine and is no built-in event makes \<^verbatim>\<open>transition\<close> throw: no state is returned,
  and the error is the unknown-event error of strict mode. (The one exception to the kind
  of error is the reserved wildcard name, which is no event name: outside production
  builds it is refused by the check that precedes the strict-mode check.)
\<close>

theorem strict_mode_rejects_unknown_event:
  assumes "strict m this"
    and "\<not> has (eventsOf m this) (ev_name (toSCXMLEvent env event))"
    and "\<not> isBuiltInEvent env (ev_name (toSCXMLEvent env event))"
  shows "isl (transition env m (Suc fuel) this state event)
       \<and> (ev_name (toSCXMLEvent env event) \<noteq> WILDCARD \<or> IS_PRODUCTION env \<longrightarrow>
            transition env m (Suc fuel) this state event
              = Inl (UnknownEvent (node_id m this) (ev_name (toSCXMLEvent env event))))"
  using assms by (auto simp: Let_def)

theorem strict_mode_rejects_unknown_event_witness:
  "strict lightMachine []
   \<and> transition refEnv lightMachine (Suc 0) [] (stateAt (SVString ''green'') 0)
       (PlainEvent (EventName ''FOO'')) = Inl (UnknownEvent ''light'' ''FOO'')
   \<and> \<not> isl (transition refEnv lightMachine 4 [] (stateAt (SVMap [(''red'', SVString ''wait'')]) 0)
              (PlainEvent (EventName ''PED_COUNTDOWN'')))"
proof -
  let ?e = "PlainEvent (EventName ''FOO'') :: unit event_input"
  let ?env = "refEnv :: (nat, unit, (nat, unit) assigner) environment"
  have nm: "ev_name (toSCXMLEvent ?env ?e) = ''FOO''"
    by (simp add: refEnv_def ref_toSCXMLEvent_def)
  have s: "strict lightMachine []" by code_simp
  have h0: "\<not> has (eventsOf lightMachine []) ''FOO''" by code_simp
  have h: "\<not> has (eventsOf lightMachine []) (ev_name (toSCXMLEvent ?env ?e))"
    unfolding nm by (rule h0)
  have b0: "\<not> isBuiltInEvent ?env ''FOO''"
    by (simp add: refEnv_def ref_isBuiltInEvent_def startsWith_def)
  have b: "\<not> isBuiltInEvent ?env (ev_name (toSCXMLEvent ?env ?e))"
    unfolding nm by (rule b0)
  have w0: "''FOO'' \<noteq> WILDCARD" by (simp add: WILDCARD_def)
  have w: "ev_name (toSCXMLEvent ?env ?e) \<noteq> WILDCARD \<or> IS_PRODUCTION ?env"
    unfolding nm by (rule disjI1) (rule w0)
  have ident: "node_id lightMachine [] = ''light''" by code_simp
  have ped: "\<not> isl (transition refEnv lightMachine 4 [] (stateAt (SVMap [(''red'', SVString ''wait'')]) 0)
              (PlainEvent (EventName ''PED_COUNTDOWN'')))"
    by code_simp
  note inst = strict_mode_rejects_unknown_event
    [of lightMachine "[]" ?env ?e 0 "stateAt (SVString ''green'') 0", OF s h b]
  from inst[THEN conjunct2, rule_format, OF w]
  have "transition refEnv lightMachine (Suc 0) [] (stateAt (SVString ''green'') 0) ?e
          = Inl (UnknownEvent ''light'' ''FOO'')"
    unfolding nm ident .
  with s ped show ?thesis by (intro conjI)
qed

subsection \<open>The order of exit and entry\<close>

lemma sorted_wrt_remdups:
  "sorted_wrt P xs \<Longrightarrow> sorted_wrt P (remdups xs)"
  by (induction xs) auto

lemma set_setOf [simp]: "set (setOf xs) = set xs"
  by (simp add: setOf_def)

lemma distinct_setOf [simp]: "distinct (setOf xs)"
  by (simp add: setOf_def)

lemma sorted_wrt_setOf:
  assumes "sorted_wrt P xs"
  shows "sorted_wrt P (setOf xs)"
proof -
  from assms have "sorted_wrt (\<lambda>a b. P b a) (rev xs)"
    by (simp add: sorted_wrt_rev)
  then have "sorted_wrt (\<lambda>a b. P b a) (remdups (rev xs))"
    by (rule sorted_wrt_remdups)
  then show ?thesis
    by (simp add: setOf_def sorted_wrt_rev)
qed

lemma sorted_wrt_strict:
  assumes "sorted_wrt (\<lambda>a b. f a \<le> (f b :: int)) ys" and "distinct ys" and "inj_on f (set ys)"
  shows "sorted_wrt (\<lambda>a b. f a < f b) ys"
  using assms
proof (induction ys)
  case Nil
  then show ?case by simp
next
  case (Cons y ys)
  have "f y < f z" if "z \<in> set ys" for z
  proof -
    from that Cons.prems(2) have "y \<noteq> z" by auto
    with that Cons.prems(3) have "f y \<noteq> f z" by (auto simp: inj_on_def)
    moreover from that Cons.prems(1) have "f y \<le> f z" by simp
    ultimately show ?thesis by simp
  qed
  moreover from Cons have "sorted_wrt (\<lambda>a b. f a < f b) ys" by (simp add: inj_on_def)
  ultimately show ?case by simp
qed

lemma entryStatesOf_sorted:
  "sorted_wrt (\<lambda>a b. order_of m a \<le> order_of m b) (entryStatesOf m es)"
proof -
  have "sorted (map (order_of m) (sort_key (order_of m) es))" by simp
  then have "sorted_wrt (\<lambda>a b. order_of m a \<le> order_of m b) (sort_key (order_of m) es)"
    by (simp add: sorted_map)
  then show ?thesis unfolding entryStatesOf_def by (rule sorted_wrt_setOf)
qed

lemma exitStatesOf_sorted:
  "sorted_wrt (\<lambda>a b. order_of m b \<le> order_of m a) (exitStatesOf m xs)"
proof -
  have "sorted (map (\<lambda>sn. - order_of m sn) (sort_key (\<lambda>sn. - order_of m sn) xs))" by simp
  then have "sorted_wrt (\<lambda>a b. order_of m b \<le> order_of m a) (sort_key (\<lambda>sn. - order_of m sn) xs)"
    by (simp add: sorted_map)
  then show ?thesis unfolding exitStatesOf_def by (rule sorted_wrt_setOf)
qed

lemma set_entryStatesOf [simp]: "set (entryStatesOf m es) = set es"
  by (simp add: entryStatesOf_def)

lemma set_exitStatesOf [simp]: "set (exitStatesOf m xs) = set xs"
  by (simp add: exitStatesOf_def)

lemma first_index_less:
  "x \<in> set xs \<Longrightarrow> length (takeWhile (\<lambda>q. q \<noteq> x) xs) < length xs"
  by (induction xs) auto

lemma first_index_inj:
  assumes "x \<in> set xs" and "y \<in> set xs"
    and "length (takeWhile (\<lambda>q. q \<noteq> x) xs) = length (takeWhile (\<lambda>q. q \<noteq> y) xs)"
  shows "x = y"
proof -
  define i where "i = length (takeWhile (\<lambda>q. q \<noteq> x) xs)"
  define j where "j = length (takeWhile (\<lambda>q. q \<noteq> y) xs)"
  from assms(1) have "length (takeWhile (\<lambda>q. q \<noteq> x) xs) < length xs"
    by (rule first_index_less)
  then have "\<not> (xs ! length (takeWhile (\<lambda>q. q \<noteq> x) xs) \<noteq> x)"
    by (rule nth_length_takeWhile)
  then have ex: "xs ! i = x" unfolding i_def by blast
  from assms(2) have "length (takeWhile (\<lambda>q. q \<noteq> y) xs) < length xs"
    by (rule first_index_less)
  then have "\<not> (xs ! length (takeWhile (\<lambda>q. q \<noteq> y) xs) \<noteq> y)"
    by (rule nth_length_takeWhile)
  then have ey: "xs ! j = y" unfolding j_def by blast
  from assms(3) have "i = j" unfolding i_def j_def .
  with ex ey show ?thesis by blast
qed

lemma order_of_inj:
  "inj_on (order_of m) (set (dfs (m_root m)))"
proof (rule inj_onI)
  fix x y
  assume x: "x \<in> set (dfs (m_root m))" and y: "y \<in> set (dfs (m_root m))"
    and eq: "order_of m x = order_of m y"
  from eq have "length (takeWhile (\<lambda>q. q \<noteq> x) (dfs (m_root m)))
              = length (takeWhile (\<lambda>q. q \<noteq> y) (dfs (m_root m)))"
    by (simp add: order_of_def)
  with x y show "x = y" by (rule first_index_inj)
qed

lemma entryStatesOf_strict:
  assumes "set es \<subseteq> set (dfs (m_root m))"
  shows "sorted_wrt (\<lambda>a b. order_of m a < order_of m b) (entryStatesOf m es)"
proof (rule sorted_wrt_strict)
  show "sorted_wrt (\<lambda>a b. order_of m a \<le> order_of m b) (entryStatesOf m es)"
    by (rule entryStatesOf_sorted)
  show "distinct (entryStatesOf m es)" by (simp add: entryStatesOf_def)
  from assms order_of_inj[of m] show "inj_on (order_of m) (set (entryStatesOf m es))"
    by (auto intro: inj_on_subset)
qed

lemma exitStatesOf_strict:
  assumes "set xs \<subseteq> set (dfs (m_root m))"
  shows "sorted_wrt (\<lambda>a b. order_of m b < order_of m a) (exitStatesOf m xs)"
proof -
  have "sorted_wrt (\<lambda>a b. - order_of m a < - order_of m b) (exitStatesOf m xs)"
  proof (rule sorted_wrt_strict)
    from exitStatesOf_sorted[of m xs]
    show "sorted_wrt (\<lambda>a b. - order_of m a \<le> - order_of m b) (exitStatesOf m xs)" by simp
    show "distinct (exitStatesOf m xs)" by (simp add: exitStatesOf_def)
    from assms order_of_inj[of m] have "inj_on (order_of m) (set (exitStatesOf m xs))"
      by (auto intro: inj_on_subset)
    then show "inj_on (\<lambda>sn. - order_of m sn) (set (exitStatesOf m xs))"
      by (auto simp: inj_on_def)
  qed
  then show ?thesis by simp
qed

lemma strictly_sorted_inj:
  "sorted_wrt (\<lambda>a b. f a < (f b :: int)) xs \<Longrightarrow> inj_on f (set xs)"
proof (induction xs)
  case Nil
  then show ?case by simp
next
  case (Cons a xs)
  then have "inj_on f (set xs)" by simp
  moreover from Cons.prems have "f a \<notin> f ` (set xs - {a})" by auto
  ultimately show ?case by simp
qed

lemma strictly_sorted_unique:
  assumes "sorted_wrt (\<lambda>a b. f a < (f b :: int)) xs" and "sorted_wrt (\<lambda>a b. f a < f b) ys"
    and "set xs = set ys"
  shows "xs = ys"
proof -
  have sx: "sorted_wrt (<) (map f xs)" and sy: "sorted_wrt (<) (map f ys)"
    using assms(1,2) by (simp_all add: sorted_wrt_map)
  from assms(3) have "set (map f xs) = set (map f ys)" by simp
  with sy sx have eq: "map f xs = map f ys" by (rule strict_sorted_equal)
  from strictly_sorted_inj[OF assms(1)] assms(3) have "inj_on f (set xs \<union> set ys)" by simp
  then have "(map f xs = map f ys) = (xs = ys)" by (rule inj_on_map_eq_map)
  with eq show ?thesis by blast
qed

lemma entryStatesOf_set_only:
  assumes "set es \<subseteq> set (dfs (m_root m))" and "set es' = set es"
  shows "entryStatesOf m es' = entryStatesOf m es"
proof (rule strictly_sorted_unique)
  from assms show "sorted_wrt (\<lambda>a b. order_of m a < order_of m b) (entryStatesOf m es')"
    by (intro entryStatesOf_strict) simp
  from assms show "sorted_wrt (\<lambda>a b. order_of m a < order_of m b) (entryStatesOf m es)"
    by (intro entryStatesOf_strict)
  from assms show "set (entryStatesOf m es') = set (entryStatesOf m es)" by simp
qed

lemma exitStatesOf_set_only:
  assumes "set xs \<subseteq> set (dfs (m_root m))" and "set xs' = set xs"
  shows "exitStatesOf m xs' = exitStatesOf m xs"
proof (rule strictly_sorted_unique[where f = "\<lambda>sn. - order_of m sn"])
  from assms exitStatesOf_strict[of xs' m]
  show "sorted_wrt (\<lambda>a b. - order_of m a < - order_of m b) (exitStatesOf m xs')" by simp
  from assms exitStatesOf_strict[of xs m]
  show "sorted_wrt (\<lambda>a b. - order_of m a < - order_of m b) (exitStatesOf m xs)" by simp
  from assms show "set (exitStatesOf m xs') = set (exitStatesOf m xs)" by simp
qed

lemma getActions_value:
  assumes "previousNodes env m fuel this prevState = Inr nodes"
    and "mapE (doneEventsOf env m stateTransition currentContext ev)
           (fst (stepSets env m this stateTransition nodes)) = Inr doneLists"
  shows "getActions env m fuel this stateTransition currentContext ev prevState =
           Inr (toActionObjects env m
                  (concat (map (exitActionsOf env m)
                             (exitStatesOf m (snd (stepSets env m this stateTransition nodes))))
                   @ tr_actions stateTransition
                   @ concat (map (entryActionsOf env m)
                               (entryStatesOf m (fst (stepSets env m this stateTransition nodes))))
                   @ map (raise env) (concat doneLists)))"
  using assms by (simp add: getActions_def)

lemma mapE_doneEventsOf_no_final:
  "\<forall>sn \<in> set es. node_type_of m sn \<noteq> Some Final \<Longrightarrow>
   mapE (doneEventsOf env m stateTransition currentContext ev) es = Inr (map (\<lambda>sn. []) es)"
  by (induction es) (simp_all add: doneEventsOf_def)

lemma concat_no_activities_exit:
  "\<forall>sn \<in> set xs. activities m sn = [] \<Longrightarrow>
   concat (map (exitActionsOf env m) xs) = concat (map (onExit m) xs)"
  by (induction xs) (simp_all add: exitActionsOf_def)

lemma concat_no_activities_entry:
  "\<forall>sn \<in> set xs. activities m sn = [] \<Longrightarrow>
   concat (map (entryActionsOf env m) xs) = concat (map (onEntry m) xs)"
  by (induction xs) (simp_all add: entryActionsOf_def)

lemma sorted_setOf_unique_entry:
  assumes "set es \<subseteq> set (dfs (m_root m))" and "set ys = set es"
    and "sorted_wrt (\<lambda>a b. order_of m a \<le> order_of m b) ys"
  shows "setOf ys = entryStatesOf m es"
proof (rule strictly_sorted_unique)
  show "sorted_wrt (\<lambda>a b. order_of m a < order_of m b) (setOf ys)"
  proof (rule sorted_wrt_strict)
    from assms(3) show "sorted_wrt (\<lambda>a b. order_of m a \<le> order_of m b) (setOf ys)"
      by (rule sorted_wrt_setOf)
    show "distinct (setOf ys)" by simp
    from assms(1,2) order_of_inj[of m] show "inj_on (order_of m) (set (setOf ys))"
      by (auto intro: inj_on_subset)
  qed
  from assms(1) show "sorted_wrt (\<lambda>a b. order_of m a < order_of m b) (entryStatesOf m es)"
    by (rule entryStatesOf_strict)
  from assms(2) show "set (setOf ys) = set (entryStatesOf m es)" by simp
qed

lemma sorted_setOf_unique_exit:
  assumes "set xs \<subseteq> set (dfs (m_root m))" and "set ys = set xs"
    and "sorted_wrt (\<lambda>a b. order_of m b \<le> order_of m a) ys"
  shows "setOf ys = exitStatesOf m xs"
proof (rule strictly_sorted_unique[where f = "\<lambda>sn. - order_of m sn"])
  have "sorted_wrt (\<lambda>a b. - order_of m a < - order_of m b) (setOf ys)"
  proof (rule sorted_wrt_strict)
    from assms(3) have "sorted_wrt (\<lambda>a b. order_of m b \<le> order_of m a) (setOf ys)"
      by (rule sorted_wrt_setOf)
    then show "sorted_wrt (\<lambda>a b. - order_of m a \<le> - order_of m b) (setOf ys)" by simp
    show "distinct (setOf ys)" by simp
    from assms(1,2) order_of_inj[of m] have "inj_on (order_of m) (set (setOf ys))"
      by (auto intro: inj_on_subset)
    then show "inj_on (\<lambda>sn. - order_of m sn) (set (setOf ys))"
      by (simp add: inj_on_def)
  qed
  then show "sorted_wrt (\<lambda>a b. - order_of m a < - order_of m b) (setOf ys)" .
  from assms(1) exitStatesOf_strict[of xs m]
  show "sorted_wrt (\<lambda>a b. - order_of m a < - order_of m b) (exitStatesOf m xs)" by simp
  from assms(2) show "set (setOf ys) = set (exitStatesOf m xs)" by simp
qed

text \<open>
  Claim C5. The nodes whose exit actions \<^verbatim>\<open>getActions\<close> collects are the nodes of the
  exit set in strictly descending \<^verbatim>\<open>order\<close>, and the nodes whose entry actions it collects
  are the nodes of the entry set in strictly ascending \<^verbatim>\<open>order\<close>; the returned list holds
  the actions of these nodes in these orders. The insertion sequence plays no part: every
  list with the same elements that is sorted by \<^verbatim>\<open>order\<close>, whatever it does with equal
  keys, yields the same sequence of nodes. (The arrays \<^verbatim>\<open>transition.exitSet\<close> and
  \<^verbatim>\<open>transition.entrySet\<close> can hold a node twice; the \<^verbatim>\<open>Set\<close> built from each keeps one
  occurrence.) The nodes are nodes of the machine, where \<^verbatim>\<open>order\<close> is the position in
  document order.
\<close>

theorem exit_and_entry_in_document_order:
  assumes "previousNodes env m fuel this prevState = Inr nodes"
    and "mapE (doneEventsOf env m stateTransition currentContext ev) entrySet = Inr doneLists"
    and "entrySet = fst (stepSets env m this stateTransition nodes)"
    and "exitSet = snd (stepSets env m this stateTransition nodes)"
    and "set entrySet \<union> set exitSet \<subseteq> set (dfs (m_root m))"
  shows "getActions env m fuel this stateTransition currentContext ev prevState =
           Inr (toActionObjects env m
                  (concat (map (exitActionsOf env m) (exitStatesOf m exitSet))
                   @ tr_actions stateTransition
                   @ concat (map (entryActionsOf env m) (entryStatesOf m entrySet))
                   @ map (raise env) (concat doneLists)))
       \<and> sorted_wrt (\<lambda>a b. order_of m b < order_of m a) (exitStatesOf m exitSet)
       \<and> set (exitStatesOf m exitSet) = set exitSet
       \<and> sorted_wrt (\<lambda>a b. order_of m a < order_of m b) (entryStatesOf m entrySet)
       \<and> set (entryStatesOf m entrySet) = set entrySet
       \<and> (\<forall>ys. set ys = set exitSet \<and> sorted_wrt (\<lambda>a b. order_of m b \<le> order_of m a) ys
               \<longrightarrow> setOf ys = exitStatesOf m exitSet)
       \<and> (\<forall>ys. set ys = set entrySet \<and> sorted_wrt (\<lambda>a b. order_of m a \<le> order_of m b) ys
               \<longrightarrow> setOf ys = entryStatesOf m entrySet)"
proof -
  from assms(5) have en: "set entrySet \<subseteq> set (dfs (m_root m))"
    and ex: "set exitSet \<subseteq> set (dfs (m_root m))" by simp_all
  from assms(1) assms(2)[unfolded assms(3)]
  have "getActions env m fuel this stateTransition currentContext ev prevState =
           Inr (toActionObjects env m
                  (concat (map (exitActionsOf env m) (exitStatesOf m exitSet))
                   @ tr_actions stateTransition
                   @ concat (map (entryActionsOf env m) (entryStatesOf m entrySet))
                   @ map (raise env) (concat doneLists)))"
    unfolding assms(3,4) by (rule getActions_value)
  moreover from ex have "sorted_wrt (\<lambda>a b. order_of m b < order_of m a) (exitStatesOf m exitSet)"
    by (rule exitStatesOf_strict)
  moreover have "set (exitStatesOf m exitSet) = set exitSet" by simp
  moreover from en have "sorted_wrt (\<lambda>a b. order_of m a < order_of m b) (entryStatesOf m entrySet)"
    by (rule entryStatesOf_strict)
  moreover have "set (entryStatesOf m entrySet) = set entrySet" by simp
  moreover have "\<forall>ys. set ys = set exitSet \<and> sorted_wrt (\<lambda>a b. order_of m b \<le> order_of m a) ys
               \<longrightarrow> setOf ys = exitStatesOf m exitSet"
    using ex by (blast intro: sorted_setOf_unique_exit)
  moreover have "\<forall>ys. set ys = set entrySet \<and> sorted_wrt (\<lambda>a b. order_of m a \<le> order_of m b) ys
               \<longrightarrow> setOf ys = entryStatesOf m entrySet"
    using en by (blast intro: sorted_setOf_unique_entry)
  ultimately show ?thesis by (intro conjI)
qed

theorem exit_and_entry_in_document_order_witness:
  "fst (stepSets refEnv lightMachine [] outageStep [[''red''], [''red'', ''walk'']])
     = [[''red'', ''walk''], [''red'']]
   \<and> snd (stepSets refEnv lightMachine [] outageStep [[''red''], [''red'', ''walk'']])
     = [[''red''], [''red'', ''walk'']]
   \<and> map_sum id (map a_type)
       (getActions refEnv lightMachine 2 [] outageStep 0 outageEvent (Some walking))
     = Inr [''exit_walk'', ''exit_red'', ''enter_red'', ''enter_walk'']
   \<and> exitStatesOf lightMachine [[''red''], [''red'', ''walk'']] = [[''red'', ''walk''], [''red'']]
   \<and> entryStatesOf lightMachine [[''red'', ''walk''], [''red'']] = [[''red''], [''red'', ''walk'']]
   \<and> sorted_wrt (\<lambda>a b. order_of lightMachine b < order_of lightMachine a)
       (exitStatesOf lightMachine [[''red''], [''red'', ''walk'']])
   \<and> sorted_wrt (\<lambda>a b. order_of lightMachine a < order_of lightMachine b)
       (entryStatesOf lightMachine [[''red'', ''walk''], [''red'']])
   \<and> setOf [[''red'', ''walk''], [''red'', ''walk''], [''red'']]
     = exitStatesOf lightMachine [[''red''], [''red'', ''walk'']]
   \<and> setOf [[''red''], [''red''], [''red'', ''walk'']]
     = entryStatesOf lightMachine [[''red'', ''walk''], [''red'']]"
proof -
  have h1: "previousNodes refEnv lightMachine 2 [] (Some walking)
              = Inr [[''red''], [''red'', ''walk'']]"
    by code_simp
  have h2: "mapE (doneEventsOf refEnv lightMachine outageStep 0 outageEvent)
              [[''red'', ''walk''], [''red'']] = Inr [[], []]"
    by code_simp
  have h3: "[[''red'', ''walk''], [''red'']]
              = fst (stepSets refEnv lightMachine [] outageStep [[''red''], [''red'', ''walk'']])"
    by code_simp
  have h4: "[[''red''], [''red'', ''walk'']]
              = snd (stepSets refEnv lightMachine [] outageStep [[''red''], [''red'', ''walk'']])"
    by code_simp
  have h5: "set [[''red'', ''walk''], [''red'']] \<union> set [[''red''], [''red'', ''walk'']]
              \<subseteq> set (dfs (m_root lightMachine))"
    by code_simp
  note inst = exit_and_entry_in_document_order[OF h1 h2 h3 h4 h5]
  have a: "map_sum id (map a_type)
       (getActions refEnv lightMachine 2 [] outageStep 0 outageEvent (Some walking))
     = Inr [''exit_walk'', ''exit_red'', ''enter_red'', ''enter_walk'']"
    by code_simp
  have b: "exitStatesOf lightMachine [[''red''], [''red'', ''walk'']]
             = [[''red'', ''walk''], [''red'']]"
    by code_simp
  have c: "entryStatesOf lightMachine [[''red'', ''walk''], [''red'']]
             = [[''red''], [''red'', ''walk'']]"
    by code_simp
  note d = inst[THEN conjunct2, THEN conjunct1]
  note e = inst[THEN conjunct2, THEN conjunct2, THEN conjunct2, THEN conjunct1]
  have p1: "set [[''red'', ''walk''], [''red'', ''walk''], [''red'']]
              = set [[''red''], [''red'', ''walk'']]
            \<and> sorted_wrt (\<lambda>a b. order_of lightMachine b \<le> order_of lightMachine a)
                [[''red'', ''walk''], [''red'', ''walk''], [''red'']]"
    by code_simp
  have p2: "set [[''red''], [''red''], [''red'', ''walk'']] = set [[''red'', ''walk''], [''red'']]
            \<and> sorted_wrt (\<lambda>a b. order_of lightMachine a \<le> order_of lightMachine b)
                [[''red''], [''red''], [''red'', ''walk'']]"
    by code_simp
  note f = inst[THEN conjunct2, THEN conjunct2, THEN conjunct2, THEN conjunct2, THEN conjunct2,
      THEN conjunct1, THEN spec, THEN mp, OF p1]
  note g = inst[THEN conjunct2, THEN conjunct2, THEN conjunct2, THEN conjunct2, THEN conjunct2,
      THEN conjunct2, THEN spec, THEN mp, OF p2]
  from h3[symmetric] h4[symmetric] a b c d e f g show ?thesis by (intro conjI)
qed

end
